theory Spec2Isabelle
  imports Main "HOL-Library.Sublist"
begin

section \<open>JavaScript strings\<close>

text \<open>
  A JavaScript string is modelled as a \<^typ>\<open>string\<close>. The four regular expressions of
  \<^verbatim>\<open>escapeHtml\<close> and \<^verbatim>\<open>unescapeHtml\<close> are built from the literal texts
  \<^verbatim>\<open>&\<close>, \<^verbatim>\<open><\<close>, \<^verbatim>\<open>&amp;\<close>, \<^verbatim>\<open>&lt;\<close>, \<^verbatim>\<open>&gt;\<close> with the flag \<^verbatim>\<open>g\<close>; none
  of them holds a regular-expression metacharacter, and none of the replacement texts holds a
  \<^verbatim>\<open>$\<close>. So \<^verbatim>\<open>text.replace(new RegExp(pat, "g"), rep)\<close> scans the text from the left,
  replaces every match of the literal \<open>pat\<close> and continues behind the match. For the empty
  pattern JavaScript matches once before every character and once at the end.
\<close>

fun replace_g :: "string \<Rightarrow> string \<Rightarrow> string \<Rightarrow> string" where
  "replace_g pat rep [] = (if pat = [] then rep else [])"
| "replace_g pat rep (c # cs) =
     (if pat = [] then rep @ c # replace_g pat rep cs
      else if prefix pat (c # cs) then rep @ replace_g pat rep (drop (length pat) (c # cs))
      else c # replace_g pat rep cs)"

text \<open>Lines 545-547, \<^verbatim>\<open>CodeInput.escapeHtml\<close>.\<close>

definition escapeHtml :: "string \<Rightarrow> string" where
  "escapeHtml text = replace_g ''<'' ''&lt;'' (replace_g ''&'' ''&amp;'' text)"

text \<open>Lines 554-556, \<^verbatim>\<open>CodeInput.unescapeHtml\<close>.\<close>

definition unescapeHtml :: "string \<Rightarrow> string" where
  "unescapeHtml text =
     replace_g ''&gt;'' ''>'' (replace_g ''&lt;'' ''<'' (replace_g ''&amp;'' ''&'' text))"

text \<open>\<^verbatim>\<open>String.prototype.includes\<close>: the text holds the pattern as a substring.\<close>

fun str_includes :: "string \<Rightarrow> string \<Rightarrow> bool" where
  "str_includes [] pat = (pat = [])"
| "str_includes (c # cs) pat = (prefix pat (c # cs) \<or> str_includes cs pat)"

text \<open>
  \<^verbatim>\<open>String.prototype.toLowerCase\<close> on the letters a string of this model can hold.
\<close>

definition toLowerCase_char :: "char \<Rightarrow> char" where
  "toLowerCase_char c =
     (case map_of (zip ''ABCDEFGHIJKLMNOPQRSTUVWXYZ'' ''abcdefghijklmnopqrstuvwxyz'') c of
        None \<Rightarrow> c | Some d \<Rightarrow> d)"

definition toLowerCase :: "string \<Rightarrow> string" where
  "toLowerCase s = map toLowerCase_char s"


text \<open>
  The HTML standard normalises the newlines of a text: the pair carriage return, line feed
  becomes a line feed, and every other carriage return becomes a line feed. A textarea does
  so with its value when the value is read, the HTML parser with the markup it is given.
\<close>

fun normalize_newlines :: "string \<Rightarrow> string" where
  "normalize_newlines [] = []"
| "normalize_newlines [c] = (if c = CHR 0x0D then [CHR 0x0A] else [c])"
| "normalize_newlines (c # d # cs) =
     (if c = CHR 0x0D
      then (if d = CHR 0x0A then CHR 0x0A # normalize_newlines cs
            else CHR 0x0A # normalize_newlines (d # cs))
      else c # normalize_newlines (d # cs))"

text \<open>
  What the HTML parser makes of a markup that is assigned to \<^verbatim>\<open>innerHTML\<close> of a
  \<^verbatim>\<open>code\<close> element, for a markup that is text only: it has no \<^verbatim>\<open><\<close>, and every
  \<^verbatim>\<open>&\<close> in it begins one of the character references \<^verbatim>\<open>&amp;\<close>, \<^verbatim>\<open>&lt;\<close>,
  \<^verbatim>\<open>&gt;\<close>. The parser normalises the newlines, replaces the references by their
  characters and drops the character with code 0; the result is the data of the one text
  node the element then has (no node when the data is empty). For every other markup the
  function returns \<open>None\<close>: tags and the other character references are not modelled.
\<close>

fun html_text :: "string \<Rightarrow> string option" where
  "html_text [] = Some []"
| "html_text (c # cs) =
     (if c = CHR ''<'' then None
      else if c = CHR ''&'' then
        (if prefix ''amp;'' cs then map_option ((#) CHR ''&'') (html_text (drop 4 cs))
         else if prefix ''lt;'' cs then map_option ((#) CHR ''<'') (html_text (drop 3 cs))
         else if prefix ''gt;'' cs then map_option ((#) CHR ''>'') (html_text (drop 3 cs))
         else None)
      else if c = CHR 0x00 then html_text cs
      else map_option ((#) c) (html_text cs))"

text \<open>
  The markup that reading \<^verbatim>\<open>innerHTML\<close> returns for an element whose only child is a
  text node: \<^verbatim>\<open>&\<close>, \<^verbatim>\<open><\<close>, \<^verbatim>\<open>>\<close> and the no-break space are written as character
  references.
\<close>

definition serialize_char :: "char \<Rightarrow> string" where
  "serialize_char c =
     (if c = CHR ''&'' then ''&amp;'' else if c = CHR ''<'' then ''&lt;''
      else if c = CHR ''>'' then ''&gt;'' else if c = CHR 0xA0 then ''&nbsp;'' else [c])"

definition serialize_text :: "string \<Rightarrow> string" where
  "serialize_text s = concat (map serialize_char s)"

text \<open>
  The content of the \<^verbatim>\<open>code\<close> element. \<open>Text s\<close>: one text node with the data \<open>s\<close>.
  \<open>Nodes m\<close>: nodes the model does not look into, known by a markup \<open>m\<close>: the nodes the
  parser makes of an assigned markup that is more than text, or the nodes a highlight
  function has left.
\<close>

datatype content = Text string | Nodes string

definition parse_fragment :: "string \<Rightarrow> content" where
  "parse_fragment m = (case html_text (normalize_newlines m) of Some s \<Rightarrow> Text s | None \<Rightarrow> Nodes m)"

text \<open>
  What \<^verbatim>\<open>textContent\<close> and \<^verbatim>\<open>innerHTML\<close> return when they are read from an element
  with that content.
\<close>

definition textContent :: "content \<Rightarrow> string option" where
  "textContent c = (case c of Text s \<Rightarrow> Some s | Nodes m \<Rightarrow> None)"

definition read_innerHTML :: "content \<Rightarrow> string option" where
  "read_innerHTML c = (case c of Text s \<Rightarrow> Some (serialize_text s) | Nodes m \<Rightarrow> None)"

section \<open>Values, errors and templates\<close>

text \<open>
  The values a caller can hand to \<^verbatim>\<open>codeInput.registerTemplate\<close>. A function and a
  plugin instance are known by their identity; \<open>JPlugin\<close> is an instance of
  \<^verbatim>\<open>codeInput.Plugin\<close> or of a class that extends it, \<open>JObject\<close> any other object.
\<close>

datatype jsval =
    JUndefined
  | JNull
  | JBool bool
  | JBooleanObject bool
  | JNumber int
  | JString string
  | JStringObject string
  | JFunction nat
  | JArray "jsval list"
  | JPlugin nat
  | JObject

text \<open>The fields of a template that \<^verbatim>\<open>registerTemplate\<close> names in its messages.\<close>

datatype field =
    TemplateName
  | Highlight
  | IncludeCodeInputInHighlightFunc
  | PreElementStyled
  | IsCode
  | Plugins
  | PluginAt nat

text \<open>
  The first three errors are a JavaScript \<^verbatim>\<open>TypeError\<close>: \<open>InvalidTemplate\<close> is thrown by
  the checks of \<^verbatim>\<open>registerTemplate\<close> (lines 106-117) and carries the field its message
  names; \<open>NullProperty p\<close> is what the engine throws when property \<open>p\<close> is read from,
  written to or called on \<^verbatim>\<open>null\<close> or \<^verbatim>\<open>undefined\<close>; \<open>NotAFunction p\<close> is what it
  throws when property \<open>p\<close> of an object is called and is not a function. The other two
  are a \<^verbatim>\<open>DOMException\<close> of a class list that is given a token it refuses:
  \<^verbatim>\<open>InvalidCharacterError\<close> for a token with white space, \<^verbatim>\<open>SyntaxError\<close> for the
  empty token.
\<close>

datatype exn =
    InvalidTemplate field
  | NullProperty string
  | NotAFunction string
  | InvalidCharacter string
  | EmptyToken

text \<open>
  What the caller passes as a template: an object with the five properties that the
  constructors of lines 168-174, 231-254 and 324-332 give it; \<open>others\<close> are the names of
  the further properties of the object, such as \<^verbatim>\<open>rainbowColors\<close> and \<^verbatim>\<open>delimiter\<close> of
  the template of lines 289-306. Like every object, it inherits the members of
  \<^verbatim>\<open>Object.prototype\<close>.
\<close>

record template_obj =
  highlight :: jsval
  preElementStyled :: jsval
  isCode :: jsval
  includeCodeInputInHighlightFunc :: jsval
  plugins :: jsval
  others :: "string list"

text \<open>
  What the program reads of the object that is the template of an element: its
  \<^verbatim>\<open>highlight\<close> when that is a function, the truth values of its three flags (the
  program reads them only as conditions, and \<^verbatim>\<open>undefined\<close> is false), and the plugins
  that \<^verbatim>\<open>pluginEvt\<close> finds in its \<^verbatim>\<open>plugins\<close>. For a registered template the checks of
  lines 107-117 have passed, so \<open>t_highlight\<close> is a function and \<open>t_plugins\<close> a list of
  plugin instances. \<open>no_fields\<close> is an object that has none of the five properties, such
  as a function or an array: its \<^verbatim>\<open>highlight\<close> is \<^verbatim>\<open>undefined\<close>, and the loop of
  \<^verbatim>\<open>pluginEvt\<close> over its \<^verbatim>\<open>plugins\<close>, which is \<^verbatim>\<open>undefined\<close>, has no round.
\<close>

record template =
  t_highlight :: "nat option"
  t_preElementStyled :: bool
  t_isCode :: bool
  t_includeCodeInputInHighlightFunc :: bool
  t_plugins :: "nat list"

definition no_fields :: template where
  "no_fields =
     \<lparr>t_highlight = None, t_preElementStyled = False, t_isCode = False,
      t_includeCodeInputInHighlightFunc = False, t_plugins = []\<rparr>"

section \<open>The element\<close>

text \<open>
  Functions that are event listeners. \<open>UserFn i src\<close> is a function of the page with
  identity \<open>i\<close> and source text \<open>src\<close>; the closures are the arrow functions of lines 501,
  831/837, 628 and 629; \<open>Bound k f\<close> is the function object \<^verbatim>\<open>f.bind(this)\<close>, the
  \<open>k\<close>-th one the element has made.
\<close>

datatype fn =
    UserFn nat string
  | UpdateClosure string
  | AttachClosure string fn jsval
  | InputClosure
  | ScrollClosure
  | Bound nat fn

text \<open>
  \<^verbatim>\<open>boundEventCallbacks[listener]\<close> converts the listener to a property key, which for a
  function is its source text.
\<close>

fun src_of :: "fn \<Rightarrow> string" where
  "src_of (UserFn i src) = src"
| "src_of (UpdateClosure v) = ''() => { this.update(value) }''"
| "src_of (AttachClosure ty cb opts) =
     (if opts = JUndefined
      then ''() => { this.textareaElement.addEventListener(type, boundCallback); }''
      else ''() => { this.textareaElement.addEventListener(type, boundCallback, options); }'')"
| "src_of InputClosure =
     ''(evt) => { textarea.parentElement.update(textarea.value); textarea.parentElement.sync_scroll(); }''"
| "src_of ScrollClosure = ''(evt) => textarea.parentElement.sync_scroll()''"
| "src_of (Bound k f) = ''function () { [native code] }''"

text \<open>
  Calls that leave the program: a hook of a plugin, the highlight function of the template
  (with the content it finds in the \<^verbatim>\<open>code\<close> element, and whether the element was passed
  too), a listener of the page.
\<close>

datatype event =
    PluginCall nat string "string option list"
  | HighlightCall nat content bool
  | ListenerCall nat string

text \<open>
  An event listener of a DOM node: event type, callback, capture flag. The flag is the
  truth value of a primitive passed as \<open>options\<close>; an object passed as \<open>options\<close> is taken
  to ask for no capture.
\<close>

type_synonym listener = "string \<times> fn \<times> bool"

definition capture_of :: "jsval \<Rightarrow> bool" where
  "capture_of opts =
     (case opts of JBool b \<Rightarrow> b | JNumber n \<Rightarrow> n \<noteq> 0 | JString s \<Rightarrow> s \<noteq> [] | _ \<Rightarrow> False)"

text \<open>
  \<^verbatim>\<open>EventTarget.addEventListener\<close> keeps one listener for each type, callback and capture
  flag; \<^verbatim>\<open>removeEventListener\<close> removes the listener with that type, callback and flag.
\<close>

definition dom_addEventListener :: "string \<Rightarrow> fn \<Rightarrow> jsval \<Rightarrow> listener list \<Rightarrow> listener list" where
  "dom_addEventListener ty cb opts ls =
     (if (ty, cb, capture_of opts) \<in> set ls then ls else ls @ [(ty, cb, capture_of opts)])"

definition dom_removeEventListener :: "string \<Rightarrow> fn option \<Rightarrow> jsval \<Rightarrow> listener list \<Rightarrow> listener list" where
  "dom_removeEventListener ty cb opts ls =
     (case cb of None \<Rightarrow> ls
      | Some f \<Rightarrow> filter (\<lambda>l. l \<noteq> (ty, f, capture_of opts)) ls)"

text \<open>
  \<^verbatim>\<open>DOMTokenList\<close>. The methods \<^verbatim>\<open>add\<close> and \<^verbatim>\<open>remove\<close> first look at the token:
  for the empty token they throw a \<^verbatim>\<open>SyntaxError\<close>, for a token with ASCII white space
  (tab, line feed, form feed, carriage return, space) an \<^verbatim>\<open>InvalidCharacterError\<close>. Then
  \<^verbatim>\<open>add\<close> appends a token that is not there, and \<^verbatim>\<open>remove\<close> takes it out.
  \<^verbatim>\<open>contains\<close> never throws.
\<close>

definition ascii_whitespace :: "char \<Rightarrow> bool" where
  "ascii_whitespace c =
     (c = CHR 0x09 \<or> c = CHR 0x0A \<or> c = CHR 0x0C \<or> c = CHR 0x0D \<or> c = CHR 0x20)"

definition token_error :: "string \<Rightarrow> exn option" where
  "token_error tok =
     (if tok = [] then Some EmptyToken
      else if list_ex ascii_whitespace tok then Some (InvalidCharacter tok)
      else None)"

definition add_token :: "string \<Rightarrow> string list \<Rightarrow> string list" where
  "add_token tok cl = (if tok \<in> set cl then cl else cl @ [tok])"

definition remove_token :: "string \<Rightarrow> string list \<Rightarrow> string list" where
  "remove_token tok cl = filter (\<lambda>c. c \<noteq> tok) cl"

definition classList_add :: "string \<Rightarrow> string list \<Rightarrow> exn + string list" where
  "classList_add tok cl = (case token_error tok of Some x \<Rightarrow> Inl x | None \<Rightarrow> Inr (add_token tok cl))"

definition classList_remove :: "string \<Rightarrow> string list \<Rightarrow> exn + string list" where
  "classList_remove tok cl = (case token_error tok of Some x \<Rightarrow> Inl x | None \<Rightarrow> Inr (remove_token tok cl))"

definition classList_contains :: "string \<Rightarrow> string list \<Rightarrow> bool" where
  "classList_contains tok cl = (tok \<in> set cl)"

text \<open>Attributes of a node, in document order.\<close>

type_synonym attrs = "(string \<times> string) list"

definition getAttribute :: "string \<Rightarrow> attrs \<Rightarrow> string option" where
  "getAttribute name as = map_of as name"

definition setAttribute :: "string \<Rightarrow> string \<Rightarrow> attrs \<Rightarrow> attrs" where
  "setAttribute name v as =
     (if map_of as name = None then as @ [(name, v)]
      else map (\<lambda>(k, x). if k = name then (k, v) else (k, x)) as)"

definition removeAttribute :: "string \<Rightarrow> attrs \<Rightarrow> attrs" where
  "removeAttribute name as = filter (\<lambda>(k, x). k \<noteq> name) as"

text \<open>
  The three nodes the element creates. A node has the number \<^verbatim>\<open>document.createElement\<close>
  gave it. \<open>ta_value\<close> is the text last assigned to the value of the textarea, or typed
  into it; reading \<^verbatim>\<open>textarea.value\<close> returns it with its newlines normalised.
  \<open>ta_innerHTML\<close> is the markup that line 608 assigns, which the program never reads.
  The \<^verbatim>\<open>pre\<close> element has the \<^verbatim>\<open>code\<close> element as its only child.
\<close>

record textarea =
  ta_id :: nat
  ta_value :: string
  ta_placeholder :: string
  ta_innerHTML :: string
  ta_attributes :: attrs
  ta_listeners :: "listener list"

definition textarea_value :: "textarea \<Rightarrow> string" where
  "textarea_value ta = normalize_newlines (ta_value ta)"

record display_node =
  dn_id :: nat
  dn_classList :: "string list"
  dn_attributes :: attrs

record code_node = display_node +
  cn_content :: content

text \<open>
  A \<^verbatim>\<open>code-input\<close> element (lines 425-968). \<open>listeners\<close> are the listeners on the element
  itself, \<open>p_value\<close> is the field \<^verbatim>\<open>_value\<close>, \<open>bound_made\<close> counts the function
  objects made by \<^verbatim>\<open>bind\<close>, \<open>log\<close> lists the calls that left the program, oldest first.
  A mutation observer is known by its number: \<open>observers_made\<close> counts the observers the
  element has made, \<open>mutationObserver\<close> is the field of that name (the observer made
  last), and \<open>observers\<close> are the observers that watch the attributes of the element.
\<close>

record elem =
  attributes :: attrs
  innerHTML :: string
  classList :: "string list"
  isConnected :: bool
  p_value :: string
  textareaElement :: "textarea option"
  preElement :: "display_node option"
  codeElement :: "code_node option"
  template :: "template option"
  ignoreValueUpdate :: bool
  boundEventCallbacks :: "string \<rightharpoonup> fn"
  initialValue :: "string option"
  listeners :: "listener list"
  bound_made :: nat
  mutationObserver :: "nat option"
  observers :: "nat list"
  observers_made :: nat
  log :: "event list"

text \<open>
  The highlight functions are not part of the program: \<open>hl f c owner\<close> stands for the
  nodes the function \<open>f\<close> leaves in the \<^verbatim>\<open>code\<close> element when it finds the content \<open>c\<close>
  there; \<open>owner\<close> is the value and the attributes of the element when the element is
  passed as second argument.
\<close>

type_synonym highlighter = "nat \<Rightarrow> content \<Rightarrow> (string \<times> attrs) option \<Rightarrow> string"

type_synonym outcome = "exn option \<times> elem"

text \<open>
  One statement after the other: what the first one throws ends the sequence, with the
  element as it is then.
\<close>

definition then_do :: "outcome \<Rightarrow> (elem \<Rightarrow> outcome) \<Rightarrow> outcome" where
  "then_do r f = (case r of (Some x, e) \<Rightarrow> (Some x, e) | (None, e) \<Rightarrow> f e)"

text \<open>
  \<^verbatim>\<open>this.classList.add\<close> and \<^verbatim>\<open>this.classList.remove\<close> on the element, and the same
  on its \<^verbatim>\<open>code\<close> element and on the parent of that, the \<^verbatim>\<open>pre\<close> element.
\<close>

definition add_class :: "string \<Rightarrow> elem \<Rightarrow> outcome" where
  "add_class tok e =
     (case classList_add tok (classList e) of
        Inl x \<Rightarrow> (Some x, e)
      | Inr cl \<Rightarrow> (None, e\<lparr>classList := cl\<rparr>))"

definition remove_class :: "string \<Rightarrow> elem \<Rightarrow> outcome" where
  "remove_class tok e =
     (case classList_remove tok (classList e) of
        Inl x \<Rightarrow> (Some x, e)
      | Inr cl \<Rightarrow> (None, e\<lparr>classList := cl\<rparr>))"

definition code_add_class :: "string \<Rightarrow> elem \<Rightarrow> outcome" where
  "code_add_class tok e =
     (case codeElement e of
        None \<Rightarrow> (Some (NullProperty ''classList''), e)
      | Some c \<Rightarrow>
          (case classList_add tok (dn_classList c) of
             Inl x \<Rightarrow> (Some x, e)
           | Inr cl \<Rightarrow> (None, e\<lparr>codeElement := Some (c\<lparr>dn_classList := cl\<rparr>)\<rparr>)))"

definition code_remove_class :: "string \<Rightarrow> elem \<Rightarrow> outcome" where
  "code_remove_class tok e =
     (case codeElement e of
        None \<Rightarrow> (Some (NullProperty ''classList''), e)
      | Some c \<Rightarrow>
          (case classList_remove tok (dn_classList c) of
             Inl x \<Rightarrow> (Some x, e)
           | Inr cl \<Rightarrow> (None, e\<lparr>codeElement := Some (c\<lparr>dn_classList := cl\<rparr>)\<rparr>)))"

definition pre_remove_class :: "string \<Rightarrow> elem \<Rightarrow> outcome" where
  "pre_remove_class tok e =
     (case preElement e of
        None \<Rightarrow> (Some (NullProperty ''classList''), e)
      | Some p \<Rightarrow>
          (case classList_remove tok (dn_classList p) of
             Inl x \<Rightarrow> (Some x, e)
           | Inr cl \<Rightarrow> (None, e\<lparr>preElement := Some (p\<lparr>dn_classList := cl\<rparr>)\<rparr>)))"

text \<open>
  Lines 469-480, \<^verbatim>\<open>pluginEvt\<close>. Every plugin is an instance of \<^verbatim>\<open>codeInput.Plugin\<close>,
  whose prototype has all five hooks, so \<^verbatim>\<open>eventName in plugin\<close> holds; the hooks of that
  class (lines 392-415) have empty bodies.
\<close>

definition pluginEvt :: "string \<Rightarrow> string option list \<Rightarrow> elem \<Rightarrow> outcome" where
  "pluginEvt eventName args e =
     (case template e of
        None \<Rightarrow> (Some (NullProperty ''plugins''), e)
      | Some t \<Rightarrow> (None, e\<lparr>log := log e @ map (\<lambda>p. PluginCall p eventName args) (t_plugins t)\<rparr>))"
text \<open>Lines 63-68.\<close>

definition textareaSyncEvents :: "string list" where
  "textareaSyncEvents = [''change'', ''selectionchange'', ''invalid'', ''input'']"

text \<open>
  Lines 824-849, \<^verbatim>\<open>addEventListener\<close>. Before the textarea exists, a listener for one of
  the \<open>textareaSyncEvents\<close> is attached by a closure that waits for \<^verbatim>\<open>code-input_load\<close>;
  that closure is registered through this same method. The source calls the DOM with two or
  with three arguments, as \<open>options\<close> is \<^verbatim>\<open>undefined\<close> or not; \<open>capture_of\<close> is false for
  \<^verbatim>\<open>undefined\<close> and \<^verbatim>\<open>null\<close>, so one call of the model stands for both.
\<close>

function addEventListener :: "string \<Rightarrow> fn \<Rightarrow> jsval \<Rightarrow> elem \<Rightarrow> outcome" where
  "addEventListener ty listener opts e =
     (let boundCallback = Bound (bound_made e) listener;
          e1 = e\<lparr>bound_made := Suc (bound_made e),
                 boundEventCallbacks := (boundEventCallbacks e)(src_of listener \<mapsto> boundCallback)\<rparr>
      in if ty \<in> set textareaSyncEvents then
           (case textareaElement e1 of
              None \<Rightarrow> addEventListener ''code-input_load'' (AttachClosure ty boundCallback opts) JUndefined e1
            | Some ta \<Rightarrow>
                (None, e1\<lparr>textareaElement :=
                   Some (ta\<lparr>ta_listeners := dom_addEventListener ty boundCallback opts (ta_listeners ta)\<rparr>)\<rparr>))
         else (None, e1\<lparr>listeners := dom_addEventListener ty boundCallback opts (listeners e1)\<rparr>))"
  by pat_completeness auto
termination
  by (relation "measure (\<lambda>(ty, l, opts, e). if ty \<in> set textareaSyncEvents then 1 else 0)")
     (auto simp: textareaSyncEvents_def)

declare addEventListener.simps [simp del]

text \<open>
  Lines 854-871, \<^verbatim>\<open>removeEventListener\<close>; \<open>JNull\<close> is the default of \<open>options\<close>.
\<close>

definition removeEventListener :: "string \<Rightarrow> fn \<Rightarrow> jsval \<Rightarrow> elem \<Rightarrow> outcome" where
  "removeEventListener ty listener opts e =
     (let boundCallback = boundEventCallbacks e (src_of listener)
      in if ty = ''change'' \<or> ty = ''selectionchange'' then
           (case textareaElement e of
              None \<Rightarrow> (Some (NullProperty ''removeEventListener''), e)
            | Some ta \<Rightarrow>
                (None, e\<lparr>textareaElement :=
                   Some (ta\<lparr>ta_listeners := dom_removeEventListener ty boundCallback opts (ta_listeners ta)\<rparr>)\<rparr>))
         else (None, e\<lparr>listeners := dom_removeEventListener ty (Some listener) opts (listeners e)\<rparr>))"


text \<open>
  Lines 523-524: the highlight function of the template is called with the \<^verbatim>\<open>code\<close>
  element, and with the element itself when the template asks for it. An object that is
  taken as template and has no function \<^verbatim>\<open>highlight\<close> makes the call throw.
\<close>

definition call_highlight :: "highlighter \<Rightarrow> elem \<Rightarrow> outcome" where
  "call_highlight hl e =
     (case (template e, codeElement e) of
        (Some t, Some c) \<Rightarrow>
          (case t_highlight t of
             None \<Rightarrow> (Some (NotAFunction ''highlight''), e)
           | Some f \<Rightarrow>
               (let owner = (if t_includeCodeInputInHighlightFunc t
                             then Some (p_value e, attributes e) else None)
                in (None, e\<lparr>log := log e @ [HighlightCall f (cn_content c)
                                               (t_includeCodeInputInHighlightFunc t)],
                             codeElement := Some (c\<lparr>cn_content := Nodes (hl f (cn_content c) owner)\<rparr>)\<rparr>)))
      | _ \<Rightarrow> (Some (NullProperty ''includeCodeInputInHighlightFunc''), e))"

text \<open>
  Lines 505-526, the body of \<^verbatim>\<open>update\<close> behind the assignment to \<^verbatim>\<open>this.value\<close>: the
  text is assigned to the value of the textarea when reading that value gives another
  text; with a space behind a final line feed, and escaped, it is assigned to
  \<^verbatim>\<open>innerHTML\<close> of the \<^verbatim>\<open>code\<close> element, whose content is then what the parser makes of
  that markup; then the plugins and the highlight function of the template run.
\<close>

definition update_render :: "highlighter \<Rightarrow> string \<Rightarrow> elem \<Rightarrow> outcome" where
  "update_render hl v e =
     (case textareaElement e of
        None \<Rightarrow> (Some (NullProperty ''value''), e)
      | Some ta \<Rightarrow>
          (let e1 = (if textarea_value ta \<noteq> v then e\<lparr>textareaElement := Some (ta\<lparr>ta_value := v\<rparr>)\<rparr> else e);
               v' = (if v \<noteq> [] \<and> last v = CHR 0x0A then v @ '' '' else v)
           in case codeElement e1 of
                None \<Rightarrow> (Some (NullProperty ''innerHTML''), e1)
              | Some c \<Rightarrow>
                  then_do (pluginEvt ''beforeHighlight'' []
                             (e1\<lparr>codeElement := Some (c\<lparr>cn_content := parse_fragment (escapeHtml v')\<rparr>)\<rparr>))
                    (\<lambda>e3. then_do (call_highlight hl e3) (pluginEvt ''afterHighlight'' []))))"
text \<open>
  Lines 494-527, \<^verbatim>\<open>update\<close>, and lines 883-890, the setter of \<^verbatim>\<open>value\<close>; each calls the
  other. \<^verbatim>\<open>ignoreValueUpdate\<close> is set while \<^verbatim>\<open>update\<close> assigns to \<^verbatim>\<open>this.value\<close>, so
  the call of \<^verbatim>\<open>update\<close> inside the setter returns at once.
\<close>

function update :: "highlighter \<Rightarrow> string \<Rightarrow> elem \<Rightarrow> outcome"
  and set_value :: "highlighter \<Rightarrow> string option \<Rightarrow> elem \<Rightarrow> outcome" where
  "update hl v e =
     (if ignoreValueUpdate e then (None, e)
      else if textareaElement e = None
        then addEventListener ''code-input_load'' (UpdateClosure v) JUndefined e
      else (case set_value hl (Some v) (e\<lparr>ignoreValueUpdate := True\<rparr>) of
              (Some x, e1) \<Rightarrow> (Some x, e1)
            | (None, e1) \<Rightarrow> update_render hl v (e1\<lparr>ignoreValueUpdate := False\<rparr>)))"
| "set_value hl val e =
     (let v = (case val of None \<Rightarrow> [] | Some s \<Rightarrow> s)
      in update hl v (e\<lparr>p_value := v\<rparr>))"
  by pat_completeness auto
termination
  by (relation "measure (\<lambda>x. case x of
          Inl (hl, v, e) \<Rightarrow> (if ignoreValueUpdate e then 0 else 2)
        | Inr (hl, val, e) \<Rightarrow> (if ignoreValueUpdate e then 1 else 3))")
     auto

declare update.simps [simp del] set_value.simps [simp del]

text \<open>The getter of \<^verbatim>\<open>value\<close>, lines 876-878.\<close>

definition get_value :: "elem \<Rightarrow> string" where
  "get_value e = p_value e"

text \<open>
  A DOM property that holds a string turns \<^verbatim>\<open>null\<close> into the text \<^verbatim>\<open>null\<close>; the
  operator \<^verbatim>\<open>||\<close> takes its right operand when the left one is \<^verbatim>\<open>null\<close>,
  \<^verbatim>\<open>undefined\<close> or the empty string; \<^verbatim>\<open>undefined\<close> as a property key is the text
  \<^verbatim>\<open>undefined\<close>.
\<close>

definition dom_string :: "string option \<Rightarrow> string" where
  "dom_string v = (case v of None \<Rightarrow> ''null'' | Some s \<Rightarrow> s)"

definition or_else :: "string option \<Rightarrow> string option \<Rightarrow> string option" where
  "or_else a b = (case a of None \<Rightarrow> b | Some s \<Rightarrow> if s = [] then b else Some s)"

definition key_of :: "string option \<Rightarrow> string" where
  "key_of k = (case k of None \<Rightarrow> ''undefined'' | Some s \<Rightarrow> s)"

text \<open>
  Lines 31-56 and 970-982, 1032: \<^verbatim>\<open>arrayWildcards2regex\<close> moves the names with a \<^verbatim>\<open>*\<close>
  out of \<^verbatim>\<open>textareaSyncAttributes\<close> into its \<^verbatim>\<open>regexp\<close> list. The regular expression
  made of a name with one \<^verbatim>\<open>*\<close> matches, whatever the case of the letters, the texts that
  begin with what stands before the \<^verbatim>\<open>*\<close> and end with what stands behind it.
\<close>

definition textareaSyncAttributes_source :: "string list" where
  "textareaSyncAttributes_source =
     [''aria-*'', ''value'', ''min'', ''max'', ''type'', ''pattern'', ''autocomplete'',
      ''autocorrect'', ''autofocus'', ''cols'', ''dirname'', ''disabled'', ''form'',
      ''maxlength'', ''minlength'', ''name'', ''placeholder'', ''readonly'', ''required'',
      ''rows'', ''spellcheck'', ''wrap'']"

definition textareaSyncAttributes :: "string list" where
  "textareaSyncAttributes = filter (\<lambda>n. CHR ''*'' \<notin> set n) textareaSyncAttributes_source"

definition textareaSyncAttributes_regexp :: "string list" where
  "textareaSyncAttributes_regexp = filter (\<lambda>n. CHR ''*'' \<in> set n) textareaSyncAttributes_source"

definition wildcard_match :: "string \<Rightarrow> string \<Rightarrow> bool" where
  "wildcard_match pat name =
     (let p = toLowerCase (takeWhile (\<lambda>c. c \<noteq> CHR ''*'') pat);
          q = toLowerCase (drop 1 (dropWhile (\<lambda>c. c \<noteq> CHR ''*'') pat));
          n = toLowerCase name
      in prefix p n \<and> suffix q (drop (length p) n))"


text \<open>
  Lines 760-790, the case \<^verbatim>\<open>lang\<close> of \<^verbatim>\<open>attributeChangedCallback\<close>.
  \<^verbatim>\<open>code.parentElement\<close> is the \<^verbatim>\<open>pre\<close> element, to which \<^verbatim>\<open>setup\<close> appended the
  \<^verbatim>\<open>code\<close> element. \<open>already_updated\<close> is the test of line 769; \<open>lang_classes\<close> are
  the five calls of lines 777-784, each of which can throw.
\<close>

definition already_updated :: "string option \<Rightarrow> 'a display_node_scheme \<Rightarrow> bool" where
  "already_updated newValue c =
     (case newValue of
        None \<Rightarrow> False
      | Some n \<Rightarrow> classList_contains (''language-'' @ n) (dn_classList c))"

definition lang_classes :: "string \<Rightarrow> string option \<Rightarrow> elem \<Rightarrow> outcome" where
  "lang_classes old newValue e =
     then_do (code_remove_class (''language-'' @ old) e)
       (\<lambda>e1. then_do (pre_remove_class (''language-'' @ old) e1)
         (\<lambda>e2. then_do (code_remove_class ''language-none'' e2)
           (\<lambda>e3. then_do (pre_remove_class ''language-none'' e3)
             (\<lambda>e4. case newValue of
                      None \<Rightarrow> (None, e4)
                    | Some n \<Rightarrow> if n \<noteq> [] then code_add_class (''language-'' @ n) e4 else (None, e4)))))"

text \<open>Lines 786-788: the placeholder of the textarea, and the render.\<close>

definition lang_placeholder :: "highlighter \<Rightarrow> string \<Rightarrow> string option \<Rightarrow> elem \<Rightarrow> outcome" where
  "lang_placeholder hl old newValue e =
     (case textareaElement e of
        None \<Rightarrow> (Some (NullProperty ''placeholder''), e)
      | Some ta \<Rightarrow>
          update hl (get_value e)
            (e\<lparr>textareaElement := Some (ta\<lparr>ta_placeholder :=
                 (if ta_placeholder ta = old then dom_string newValue else ta_placeholder ta)\<rparr>)\<rparr>))"

definition lang_changed :: "highlighter \<Rightarrow> string option \<Rightarrow> string option \<Rightarrow> elem \<Rightarrow> outcome" where
  "lang_changed hl oldValue newValue0 e =
     (let newValue = map_option toLowerCase newValue0
      in case codeElement e of
           None \<Rightarrow>
             (if newValue \<noteq> None \<or> oldValue \<noteq> None then (Some (NullProperty ''classList''), e)
              else (Some (NullProperty ''toLowerCase''), e))
         | Some c \<Rightarrow>
             if already_updated newValue c then (None, e)
             else
               (case oldValue of
                  None \<Rightarrow> (Some (NullProperty ''toLowerCase''), e)
                | Some ov \<Rightarrow>
                    then_do (lang_classes (toLowerCase ov) newValue e)
                      (lang_placeholder hl (toLowerCase ov) newValue)))"

text \<open>
  Lines 751-758, the case \<^verbatim>\<open>template\<close>; \<open>used k\<close> is what
  \<^verbatim>\<open>codeInput.usedTemplates[k]\<close> yields, and \<open>dflt\<close> is \<^verbatim>\<open>codeInput.defaultTemplate\<close>.
\<close>

definition template_changed ::
  "highlighter \<Rightarrow> (string \<rightharpoonup> template) \<Rightarrow> string option \<Rightarrow> string option \<Rightarrow> elem \<Rightarrow> outcome" where
  "template_changed hl used dflt newValue e =
     (let e1 = e\<lparr>template := used (key_of (or_else newValue dflt))\<rparr>
      in case template e1 of
           None \<Rightarrow> (Some (NullProperty ''preElementStyled''), e1)
         | Some t \<Rightarrow>
             then_do (if t_preElementStyled t
                      then add_class ''code-input_pre-element-styled'' e1
                      else remove_class ''code-input_pre-element-styled'' e1)
               (\<lambda>e2. update hl (get_value e2) e2))"

text \<open>
  Lines 791-809, the attributes that are copied to the textarea. The name is the name of
  an attribute the element has or had, and is taken to be one that \<^verbatim>\<open>setAttribute\<close>
  accepts.
\<close>
definition sync_attribute :: "string \<Rightarrow> string option \<Rightarrow> elem \<Rightarrow> outcome" where
  "sync_attribute name newValue e =
     (if name \<in> set textareaSyncAttributes
         \<or> list_ex (\<lambda>reg. wildcard_match reg name) textareaSyncAttributes_regexp
      then (case textareaElement e of
              None \<Rightarrow> (Some (NullProperty (if newValue = None then ''removeAttribute'' else ''setAttribute'')), e)
            | Some ta \<Rightarrow>
                (None, e\<lparr>textareaElement := Some (ta\<lparr>ta_attributes :=
                   (case newValue of
                      None \<Rightarrow> removeAttribute name (ta_attributes ta)
                    | Some v \<Rightarrow> setAttribute name v (ta_attributes ta))\<rparr>)\<rparr>))
      else (None, e))"

text \<open>Lines 740-813, \<^verbatim>\<open>attributeChangedCallback\<close>.\<close>

definition attributeChangedCallback ::
  "highlighter \<Rightarrow> (string \<rightharpoonup> template) \<Rightarrow> string option \<Rightarrow>
   string \<Rightarrow> string option \<Rightarrow> string option \<Rightarrow> elem \<Rightarrow> outcome" where
  "attributeChangedCallback hl used dflt name oldValue newValue e =
     (if isConnected e then
        (case pluginEvt ''attributeChanged'' [Some name, oldValue, newValue] e of
           (Some x, e1) \<Rightarrow> (Some x, e1)
         | (None, e1) \<Rightarrow>
             if name = ''value'' then set_value hl newValue e1
             else if name = ''placeholder'' then
               (case textareaElement e1 of
                  None \<Rightarrow> (Some (NullProperty ''placeholder''), e1)
                | Some ta \<Rightarrow> (None, e1\<lparr>textareaElement := Some (ta\<lparr>ta_placeholder := dom_string newValue\<rparr>)\<rparr>))
             else if name = ''template'' then template_changed hl used dflt newValue e1
             else if name = ''lang'' then lang_changed hl oldValue newValue e1
             else sync_attribute name newValue e1)
      else (None, e))"

text \<open>
  \<^verbatim>\<open>dispatchEvent\<close> calls the listeners of the event type in the order they were added;
  what a listener throws is reported and does not reach the caller. A listener of the page
  is a call that leaves the program. Scroll positions are not part of the model, so of the
  closure of line 628 only the call of \<^verbatim>\<open>update\<close> is kept.
\<close>

fun call_fn :: "highlighter \<Rightarrow> string \<Rightarrow> fn \<Rightarrow> elem \<Rightarrow> outcome" where
  "call_fn hl ty (UserFn i src) e = (None, e\<lparr>log := log e @ [ListenerCall i ty]\<rparr>)"
| "call_fn hl ty (UpdateClosure v) e = update hl v e"
| "call_fn hl ty (AttachClosure ty' cb opts) e =
     (case textareaElement e of
        None \<Rightarrow> (Some (NullProperty ''addEventListener''), e)
      | Some ta \<Rightarrow>
          (None, e\<lparr>textareaElement :=
             Some (ta\<lparr>ta_listeners := dom_addEventListener ty' cb opts (ta_listeners ta)\<rparr>)\<rparr>))"
| "call_fn hl ty InputClosure e =
     (case textareaElement e of
        None \<Rightarrow> (Some (NullProperty ''value''), e)
      | Some ta \<Rightarrow> update hl (textarea_value ta) e)"
| "call_fn hl ty ScrollClosure e = (None, e)"
| "call_fn hl ty (Bound k f) e = call_fn hl ty f e"

fun dispatch_list :: "highlighter \<Rightarrow> string \<Rightarrow> listener list \<Rightarrow> elem \<Rightarrow> elem" where
  "dispatch_list hl ty [] e = e"
| "dispatch_list hl ty (l # ls) e = dispatch_list hl ty ls (snd (call_fn hl ty (fst (snd l)) e))"

definition dispatchEvent :: "highlighter \<Rightarrow> string \<Rightarrow> elem \<Rightarrow> elem" where
  "dispatchEvent hl ty e = dispatch_list hl ty (filter (\<lambda>l. fst l = ty) (listeners e)) e"


text \<open>
  Lines 586-657, \<^verbatim>\<open>setup\<close>. The second argument counts the nodes that
  \<^verbatim>\<open>document.createElement\<close> has made so far; the function returns the new count. The
  nodes are made in the order textarea, \<^verbatim>\<open>code\<close>, \<^verbatim>\<open>pre\<close>. The textarea takes its
  value from the assignment of line 606; when \<open>value\<close> is empty, so is
  \<^verbatim>\<open>this.innerHTML\<close>, and the value of the new textarea is empty as well. The names of
  the attributes that are copied are names of attributes the element has, and are taken to
  be names that \<^verbatim>\<open>setAttribute\<close> accepts.
\<close>

definition sync_attributes_to_textarea :: "attrs \<Rightarrow> attrs \<Rightarrow> attrs" where
  "sync_attributes_to_textarea own ta_as =
     (let as1 = fold (\<lambda>a as. case getAttribute a own of None \<Rightarrow> as | Some v \<Rightarrow> setAttribute a v as)
                  textareaSyncAttributes ta_as
      in fold (\<lambda>reg as. fold (\<lambda>(n, v) as'. if wildcard_match reg n then setAttribute n v as' else as') own as)
           textareaSyncAttributes_regexp as1)"

definition initial_value :: "elem \<Rightarrow> string" where
  "initial_value e =
     dom_string (or_else (Some (unescapeHtml (innerHTML e)))
                (or_else (getAttribute ''value'' (attributes e)) (Some [])))"

definition initial_placeholder :: "elem \<Rightarrow> string" where
  "initial_placeholder e =
     dom_string (or_else (getAttribute ''placeholder'' (attributes e))
                (or_else (getAttribute ''lang'' (attributes e)) (Some [])))"

text \<open>Lines 589-592: the classes of the element, and the first hook.\<close>

definition setup_begin :: "elem \<Rightarrow> outcome" where
  "setup_begin e =
     then_do (add_class ''code-input_registered'' e)
       (\<lambda>e1. case template e1 of
                None \<Rightarrow> (Some (NullProperty ''preElementStyled''), e1)
              | Some t \<Rightarrow>
                  then_do (if t_preElementStyled t
                           then add_class ''code-input_pre-element-styled'' e1 else (None, e1))
                    (pluginEvt ''beforeElementsAdded'' []))"

text \<open>Lines 594-644: the three nodes are made and stored in the element.\<close>

definition new_textarea :: "nat \<Rightarrow> elem \<Rightarrow> textarea" where
  "new_textarea n e =
     \<lparr>ta_id = n, ta_value = initial_value e, ta_placeholder = initial_placeholder e,
      ta_innerHTML = innerHTML e,
      ta_attributes = sync_attributes_to_textarea (attributes e) [(''spellcheck'', ''false'')],
      ta_listeners = [(''input'', InputClosure, False), (''scroll'', ScrollClosure, False)]\<rparr>"

definition new_pre :: "nat \<Rightarrow> display_node" where
  "new_pre n = \<lparr>dn_id = n + 2, dn_classList = [], dn_attributes = [(''aria-hidden'', ''true'')]\<rparr>"

definition new_code :: "nat \<Rightarrow> code_node" where
  "new_code n = \<lparr>dn_id = n + 1, dn_classList = [], dn_attributes = [], cn_content = Text []\<rparr>"

definition add_elements :: "nat \<Rightarrow> elem \<Rightarrow> elem" where
  "add_elements n e =
     e\<lparr>initialValue := Some (initial_value e), innerHTML := [],
       textareaElement := Some (new_textarea n e),
       preElement := Some (new_pre n), codeElement := Some (new_code n)\<rparr>"

text \<open>
  Lines 646-650: the class of the language, for a template that is for code; \<open>lang\<close> is
  the attribute \<^verbatim>\<open>lang\<close> as line 595 has read it.
\<close>

definition language_class :: "string option \<Rightarrow> elem \<Rightarrow> outcome" where
  "language_class lang e =
     (case template e of
        None \<Rightarrow> (Some (NullProperty ''isCode''), e)
      | Some t \<Rightarrow>
          if t_isCode t then
            (case lang of
               None \<Rightarrow> (None, e)
             | Some l \<Rightarrow> if l \<noteq> [] then code_add_class (''language-'' @ l) e else (None, e))
          else (None, e))"

text \<open>Lines 646-656: the class, the second hook, the first render and the event.\<close>

definition setup_finish :: "highlighter \<Rightarrow> string option \<Rightarrow> string \<Rightarrow> elem \<Rightarrow> outcome" where
  "setup_finish hl lang v e =
     then_do (language_class lang e)
       (\<lambda>e1. then_do (pluginEvt ''afterElementsAdded'' [] e1)
         (\<lambda>e2. then_do (update hl v e2)
           (\<lambda>e3. (None, dispatchEvent hl ''code-input_load'' e3))))"

definition setup_elem :: "highlighter \<Rightarrow> nat \<Rightarrow> elem \<Rightarrow> outcome \<times> nat" where
  "setup_elem hl n e =
     (if textareaElement e \<noteq> None then ((None, e), n)
      else
        (case setup_begin e of
           (Some x, e3) \<Rightarrow> ((Some x, e3), n)
         | (None, e3) \<Rightarrow>
             (setup_finish hl (getAttribute ''lang'' (attributes e3)) (initial_value e3)
                (add_elements n e3), n + 3)))"

section \<open>The registry and the document\<close>

text \<open>
  The callbacks handed to \<^verbatim>\<open>runOnceWindowLoaded\<close>: the one of lines 126 and 140 calls
  \<^verbatim>\<open>connectedCallback\<close> of an element, the one of lines 695-698 its \<^verbatim>\<open>setup\<close>.
\<close>

datatype load_cb = ConnectedCb nat | SetupCb nat

text \<open>
  The object \<^verbatim>\<open>codeInput\<close> (lines 10-148, 998-1005) and the document: the elements, by
  number, the listeners of the \<^verbatim>\<open>load\<close> event of the window, and the count of nodes made.
  A key of \<^verbatim>\<open>usedTemplates\<close> and of \<^verbatim>\<open>templateNotYetRegisteredQueue\<close> is a text;
  \<^verbatim>\<open>undefined\<close> is the key \<^verbatim>\<open>undefined\<close>. \<open>usedTemplates\<close> and
  \<open>templateNotYetRegisteredQueue\<close> hold the properties the two objects have of their own.
  Both objects are written \<^verbatim>\<open>{}\<close> and so inherit the members of \<^verbatim>\<open>Object.prototype\<close>.
  An assignment to the key \<^verbatim>\<open>__proto__\<close> of such an object does not make a property: it
  makes the assigned object the prototype of the object. \<open>usedTemplates_proto\<close> is the
  template that line 120 has made the prototype of \<^verbatim>\<open>usedTemplates\<close> in this way, with
  the names of its properties.
\<close>

record world =
  usedTemplates :: "string \<rightharpoonup> template"
  usedTemplates_proto :: "(template \<times> string list) option"
  defaultTemplate :: "string option"
  templateNotYetRegisteredQueue :: "string \<rightharpoonup> nat list"
  windowLoaded :: bool
  load_listeners :: "load_cb list"
  elems :: "nat \<Rightarrow> elem"
  nodes_created :: nat

type_synonym result = "exn option \<times> world"

text \<open>
  The names of the members of \<^verbatim>\<open>Object.prototype\<close>. All but \<^verbatim>\<open>__proto__\<close> are
  functions; \<^verbatim>\<open>__proto__\<close> yields the prototype of the object it is read from.
\<close>

definition object_prototype_keys :: "string list" where
  "object_prototype_keys =
     [''constructor'', ''__defineGetter__'', ''__defineSetter__'', ''hasOwnProperty'',
      ''__lookupGetter__'', ''__lookupSetter__'', ''isPrototypeOf'', ''propertyIsEnumerable'',
      ''toString'', ''valueOf'', ''__proto__'', ''toLocaleString'']"

text \<open>
  \<^verbatim>\<open>codeInput.usedTemplates[k]\<close>, \<open>None\<close> for \<^verbatim>\<open>undefined\<close>, and
  \<^verbatim>\<open>k in codeInput.usedTemplates\<close>. The key \<^verbatim>\<open>__proto__\<close> yields the prototype: the
  template that was made the prototype, or \<^verbatim>\<open>Object.prototype\<close>. Any other key yields
  the property the object has of its own, or else the member of \<^verbatim>\<open>Object.prototype\<close> of
  that name, or else the property of that name of the template that is the prototype. The
  inherited values are functions, booleans, arrays and other values that are taken to have
  none of the five properties of a template.
\<close>

definition usedTemplates_get :: "world \<Rightarrow> string \<rightharpoonup> template" where
  "usedTemplates_get w k =
     (if k = ''__proto__'' then
        (case usedTemplates_proto w of None \<Rightarrow> Some no_fields | Some (t, ks) \<Rightarrow> Some t)
      else
        (case usedTemplates w k of
           Some t \<Rightarrow> Some t
         | None \<Rightarrow>
             if k \<in> set object_prototype_keys then Some no_fields
             else (case usedTemplates_proto w of
                     None \<Rightarrow> None
                   | Some (t, ks) \<Rightarrow> if k \<in> set ks then Some no_fields else None)))"

definition usedTemplates_has :: "world \<Rightarrow> string \<Rightarrow> bool" where
  "usedTemplates_has w k = (usedTemplates_get w k \<noteq> None)"

text \<open>Line 120, \<^verbatim>\<open>codeInput.usedTemplates[k] = template\<close>.\<close>

definition usedTemplates_set :: "string \<Rightarrow> template \<Rightarrow> string list \<Rightarrow> world \<Rightarrow> world" where
  "usedTemplates_set k t ks w =
     (if k = ''__proto__'' then w\<lparr>usedTemplates_proto := Some (t, ks)\<rparr>
      else w\<lparr>usedTemplates := (usedTemplates w)(k \<mapsto> t)\<rparr>)"

text \<open>
  Lines 562-580, \<^verbatim>\<open>getTemplate\<close> of element \<open>i\<close>. Line 574 is reached with a name that
  is no key of \<^verbatim>\<open>usedTemplates\<close>, so with a name that is no member of
  \<^verbatim>\<open>Object.prototype\<close>: the queue has it as a key only when it has it of its own.
\<close>

definition getTemplate :: "nat \<Rightarrow> world \<Rightarrow> template option \<times> world" where
  "getTemplate i w =
     (let templateName = (case getAttribute ''template'' (attributes (elems w i)) of
                            None \<Rightarrow> defaultTemplate w
                          | Some s \<Rightarrow> Some s);
          k = key_of templateName
      in if usedTemplates_has w k then (usedTemplates_get w k, w)
         else
           (let q = (case templateNotYetRegisteredQueue w k of None \<Rightarrow> [] | Some q \<Rightarrow> q)
            in (None, w\<lparr>templateNotYetRegisteredQueue := (templateNotYetRegisteredQueue w)(k \<mapsto> q @ [i])\<rparr>)))"

text \<open>
  Lines 998-1004, \<^verbatim>\<open>runOnceWindowLoaded\<close>: \<open>run\<close> is what calling the callback does.
\<close>

definition runOnceWindowLoaded :: "(world \<Rightarrow> result) \<Rightarrow> load_cb \<Rightarrow> world \<Rightarrow> result" where
  "runOnceWindowLoaded run cb w =
     (if windowLoaded w then run w else (None, w\<lparr>load_listeners := load_listeners w @ [cb]\<rparr>))"

text \<open>Lines 695-698, the callback of \<^verbatim>\<open>connectedCallback\<close>.\<close>

definition on_world :: "nat \<Rightarrow> world \<Rightarrow> outcome \<Rightarrow> result" where
  "on_world i w r = (fst r, w\<lparr>elems := (elems w)(i := snd r)\<rparr>)"

definition run_setup :: "highlighter \<Rightarrow> nat \<Rightarrow> world \<Rightarrow> result" where
  "run_setup hl i w =
     (case setup_elem hl (nodes_created w) (elems w i) of
        (r, n') \<Rightarrow> on_world i (w\<lparr>nodes_created := n'\<rparr>) (then_do r (add_class ''code-input_loaded'')))"

text \<open>One statement after the other, for calls that change the document.\<close>

definition then_world :: "result \<Rightarrow> (world \<Rightarrow> result) \<Rightarrow> result" where
  "then_world r f = (case r of (Some x, w) \<Rightarrow> (Some x, w) | (None, w) \<Rightarrow> f w)"

text \<open>
  Lines 700-704: a new mutation observer is made, stored in the field
  \<^verbatim>\<open>mutationObserver\<close>, and watches the attributes of the element. An observer made
  by an earlier call keeps watching.
\<close>

definition observe :: "elem \<Rightarrow> elem" where
  "observe e =
     e\<lparr>mutationObserver := Some (observers_made e),
       observers := observers e @ [observers_made e],
       observers_made := Suc (observers_made e)\<rparr>"

text \<open>
  Lines 691-705, \<^verbatim>\<open>connectedCallback\<close>. When the window has loaded, \<^verbatim>\<open>setup\<close> runs
  inside the call, and what it throws ends the call before line 700.
\<close>

definition connectedCallback :: "highlighter \<Rightarrow> nat \<Rightarrow> world \<Rightarrow> result" where
  "connectedCallback hl i w =
     (case getTemplate i w of
        (t, w1) \<Rightarrow>
          (let w2 = w1\<lparr>elems := (elems w1)(i := (elems w1 i)\<lparr>template := t\<rparr>)\<rparr>
           in then_world
                (if t \<noteq> None then
                   then_world (on_world i w2 (add_class ''code-input_registered'' (elems w2 i)))
                     (runOnceWindowLoaded (run_setup hl i) (SetupCb i))
                 else (None, w2))
                (\<lambda>w4. (None, w4\<lparr>elems := (elems w4)(i := observe (elems w4 i))\<rparr>))))"

definition run_cb :: "highlighter \<Rightarrow> load_cb \<Rightarrow> world \<Rightarrow> result" where
  "run_cb hl cb w = (case cb of ConnectedCb i \<Rightarrow> connectedCallback hl i w | SetupCb i \<Rightarrow> run_setup hl i w)"

text \<open>
  Lines 729-731, \<^verbatim>\<open>disconnectedCallback\<close>: the observer in the field
  \<^verbatim>\<open>mutationObserver\<close> stops watching.
\<close>

definition disconnectedCallback :: "elem \<Rightarrow> outcome" where
  "disconnectedCallback e =
     (case mutationObserver e of
        None \<Rightarrow> (Some (NullProperty ''disconnect''), e)
      | Some k \<Rightarrow> (None, e\<lparr>observers := filter (\<lambda>j. j \<noteq> k) (observers e)\<rparr>))"

text \<open>
  The browser connects element \<open>i\<close> to the document and calls its \<^verbatim>\<open>connectedCallback\<close>;
  it disconnects it and calls its \<^verbatim>\<open>disconnectedCallback\<close>.
\<close>

definition connect :: "highlighter \<Rightarrow> nat \<Rightarrow> world \<Rightarrow> result" where
  "connect hl i w = connectedCallback hl i (w\<lparr>elems := (elems w)(i := (elems w i)\<lparr>isConnected := True\<rparr>)\<rparr>)"

definition disconnect :: "nat \<Rightarrow> world \<Rightarrow> world" where
  "disconnect i w =
     w\<lparr>elems := (elems w)(i := snd (disconnectedCallback ((elems w i)\<lparr>isConnected := False\<rparr>)))\<rparr>"

text \<open>
  The \<^verbatim>\<open>load\<close> event of the window: the listener of lines 1007-1009 was added first and
  sets \<^verbatim>\<open>windowLoaded\<close>, then the callbacks run in the order they were added. What one of
  them throws is reported and does not stop the others.
\<close>

fun run_load_listeners :: "highlighter \<Rightarrow> load_cb list \<Rightarrow> world \<Rightarrow> world" where
  "run_load_listeners hl [] w = w"
| "run_load_listeners hl (cb # cbs) w = run_load_listeners hl cbs (snd (run_cb hl cb w))"

definition window_load :: "highlighter \<Rightarrow> world \<Rightarrow> world" where
  "window_load hl w = run_load_listeners hl (load_listeners w) (w\<lparr>windowLoaded := True\<rparr>)"

text \<open>
  Lines 19-24 and 1023-1033: the observed attributes, and lines 707-727,
  \<^verbatim>\<open>mutationObserverCallback\<close>, for one change of the attribute \<open>name\<close> of element \<open>i\<close>.
  The names that the constructor of a plugin adds to the observed attributes (lines
  376-385) are not in the model.
\<close>

definition observedAttributes_source :: "string list" where
  "observedAttributes_source =
     [''value'', ''placeholder'', ''lang'', ''template''] @ textareaSyncAttributes_source"

definition observedAttributes :: "string list" where
  "observedAttributes = filter (\<lambda>n. CHR ''*'' \<notin> set n) observedAttributes_source"

definition observedAttributes_regexp :: "string list" where
  "observedAttributes_regexp = filter (\<lambda>n. CHR ''*'' \<in> set n) observedAttributes_source"

definition mutationObserverCallback ::
  "highlighter \<Rightarrow> nat \<Rightarrow> string \<Rightarrow> string option \<Rightarrow> world \<Rightarrow> result" where
  "mutationObserverCallback hl i name oldValue w =
     (if name \<in> set observedAttributes
         \<or> list_ex (\<lambda>reg. wildcard_match reg name) observedAttributes_regexp
      then (case attributeChangedCallback hl (usedTemplates_get w) (defaultTemplate w) name oldValue
                   (getAttribute name (attributes (elems w i))) (elems w i) of
              (r, e') \<Rightarrow> (r, w\<lparr>elems := (elems w)(i := e')\<rparr>))
      else (None, w))"

text \<open>The tests of lines 106-117.\<close>

definition is_string :: "jsval \<Rightarrow> bool" where
  "is_string v = (case v of JString s \<Rightarrow> True | JStringObject s \<Rightarrow> True | _ \<Rightarrow> False)"

definition is_function :: "jsval \<Rightarrow> bool" where
  "is_function v = (case v of JFunction f \<Rightarrow> True | _ \<Rightarrow> False)"

definition is_boolean :: "jsval \<Rightarrow> bool" where
  "is_boolean v = (case v of JBool b \<Rightarrow> True | JBooleanObject b \<Rightarrow> True | _ \<Rightarrow> False)"

definition is_plugin :: "jsval \<Rightarrow> bool" where
  "is_plugin v = (case v of JPlugin p \<Rightarrow> True | _ \<Rightarrow> False)"

fun first_bad_plugin :: "nat \<Rightarrow> jsval list \<Rightarrow> nat option" where
  "first_bad_plugin i [] = None"
| "first_bad_plugin i (p # ps) = (if is_plugin p then first_bad_plugin (Suc i) ps else Some i)"

text \<open>A value as a condition, and the template as the program reads it once it is valid.\<close>

definition truthy :: "jsval \<Rightarrow> bool" where
  "truthy v = (case v of JUndefined \<Rightarrow> False | JNull \<Rightarrow> False | JBool b \<Rightarrow> b
               | JNumber n \<Rightarrow> n \<noteq> 0 | JString s \<Rightarrow> s \<noteq> [] | _ \<Rightarrow> True)"

definition name_key :: "jsval \<Rightarrow> string" where
  "name_key v = (case v of JString s \<Rightarrow> s | JStringObject s \<Rightarrow> s | _ \<Rightarrow> [])"

definition to_template :: "template_obj \<Rightarrow> template" where
  "to_template d =
     \<lparr>t_highlight = (case highlight d of JFunction f \<Rightarrow> Some f | _ \<Rightarrow> None),
      t_preElementStyled = truthy (preElementStyled d),
      t_isCode = truthy (isCode d),
      t_includeCodeInputInHighlightFunc = truthy (includeCodeInputInHighlightFunc d),
      t_plugins = (case plugins d of JArray ps \<Rightarrow> concat (map (\<lambda>p. case p of JPlugin k \<Rightarrow> [k] | _ \<Rightarrow> []) ps)
                   | _ \<Rightarrow> [])\<rparr>"


text \<open>The names of the properties of a template object, without the inherited ones.\<close>

definition property_names :: "template_obj \<Rightarrow> string list" where
  "property_names d =
     [''highlight'', ''preElementStyled'', ''isCode'', ''includeCodeInputInHighlightFunc'', ''plugins'']
     @ others d"

text \<open>
  Lines 123-129 and 137-143: every element of the queue gets the template, and its
  \<^verbatim>\<open>connectedCallback\<close> is called once the window has loaded. When the window has
  loaded, the call is made inside the loop, and what it throws ends the loop and
  \<^verbatim>\<open>registerTemplate\<close>.
\<close>

fun flush_queue :: "highlighter \<Rightarrow> template \<Rightarrow> nat list \<Rightarrow> world \<Rightarrow> result" where
  "flush_queue hl t [] w = (None, w)"
| "flush_queue hl t (i # js) w =
     then_world
       (runOnceWindowLoaded (connectedCallback hl i) (ConnectedCb i)
          (w\<lparr>elems := (elems w)(i := (elems w i)\<lparr>template := Some t\<rparr>)\<rparr>))
       (flush_queue hl t js)"

text \<open>
  Lines 120-147, the part of \<^verbatim>\<open>registerTemplate\<close> behind the tests. Where the queue
  has no property \<open>k\<close> of its own and \<open>k\<close> is the name of a member of
  \<^verbatim>\<open>Object.prototype\<close>, the loop of line 123 runs over that member, which has no
  property the loop would visit.
\<close>

definition flush_key :: "highlighter \<Rightarrow> template \<Rightarrow> string \<Rightarrow> world \<Rightarrow> result" where
  "flush_key hl t k w =
     (case templateNotYetRegisteredQueue w k of
        None \<Rightarrow> (None, w)
      | Some q \<Rightarrow> flush_queue hl t q w)"

definition store_template :: "highlighter \<Rightarrow> string \<Rightarrow> template_obj \<Rightarrow> world \<Rightarrow> result" where
  "store_template hl k d w =
     then_world (flush_key hl (to_template d) k (usedTemplates_set k (to_template d) (property_names d) w))
       (\<lambda>w2. if defaultTemplate w2 = None
              then flush_key hl (to_template d) (key_of None) (w2\<lparr>defaultTemplate := Some k\<rparr>)
              else (None, w2))"

text \<open>Lines 105-148, \<^verbatim>\<open>registerTemplate\<close>.\<close>

definition registerTemplate :: "highlighter \<Rightarrow> jsval \<Rightarrow> template_obj \<Rightarrow> world \<Rightarrow> result" where
  "registerTemplate hl templateName d w =
     (if \<not> is_string templateName then (Some (InvalidTemplate TemplateName), w)
      else if \<not> is_function (highlight d) then (Some (InvalidTemplate Highlight), w)
      else if \<not> is_boolean (includeCodeInputInHighlightFunc d)
        then (Some (InvalidTemplate IncludeCodeInputInHighlightFunc), w)
      else if \<not> is_boolean (preElementStyled d) then (Some (InvalidTemplate PreElementStyled), w)
      else if \<not> is_boolean (isCode d) then (Some (InvalidTemplate IsCode), w)
      else (case plugins d of
              JArray ps \<Rightarrow>
                (case first_bad_plugin 0 ps of
                   Some i \<Rightarrow> (Some (InvalidTemplate (PluginAt i)), w)
                 | None \<Rightarrow> store_template hl (name_key templateName) d w)
            | _ \<Rightarrow> (Some (InvalidTemplate Plugins), w)))"
text \<open>
  A malformed template, in the words of the specification: the highlight callback is not a
  function, one of the three flags is not a boolean, the plugins are not an array, or an
  entry of the array is not a plugin. \<open>offending d f\<close> says that field \<open>f\<close> of \<open>d\<close> is
  one of these.
\<close>

definition malformed :: "template_obj \<Rightarrow> bool" where
  "malformed d =
     (\<not> is_function (highlight d) \<or> \<not> is_boolean (preElementStyled d) \<or> \<not> is_boolean (isCode d)
      \<or> \<not> is_boolean (includeCodeInputInHighlightFunc d)
      \<or> (case plugins d of JArray ps \<Rightarrow> list_ex (\<lambda>p. \<not> is_plugin p) ps | _ \<Rightarrow> True))"

definition offending :: "template_obj \<Rightarrow> field \<Rightarrow> bool" where
  "offending d f =
     (case f of
        TemplateName \<Rightarrow> False
      | Highlight \<Rightarrow> \<not> is_function (highlight d)
      | IncludeCodeInputInHighlightFunc \<Rightarrow> \<not> is_boolean (includeCodeInputInHighlightFunc d)
      | PreElementStyled \<Rightarrow> \<not> is_boolean (preElementStyled d)
      | IsCode \<Rightarrow> \<not> is_boolean (isCode d)
      | Plugins \<Rightarrow> (case plugins d of JArray ps \<Rightarrow> False | _ \<Rightarrow> True)
      | PluginAt i \<Rightarrow> (case plugins d of JArray ps \<Rightarrow> i < length ps \<and> \<not> is_plugin (ps ! i) | _ \<Rightarrow> False))"

text \<open>
  Lines 426-463 and 960: a new element, with the attributes and the content of its markup,
  and the object \<^verbatim>\<open>codeInput\<close> when the script has been read, with the elements of the
  document.
\<close>

definition new_elem :: "attrs \<Rightarrow> string \<Rightarrow> elem" where
  "new_elem as html =
     \<lparr>attributes = as, innerHTML = html, classList = [], isConnected = False, p_value = [],
      textareaElement = None, preElement = None, codeElement = None, template = None,
      ignoreValueUpdate = False, boundEventCallbacks = Map.empty, initialValue = None,
      listeners = [], bound_made = 0, mutationObserver = None, observers = [],
      observers_made = 0, log = []\<rparr>"

definition new_world :: "(nat \<Rightarrow> elem) \<Rightarrow> world" where
  "new_world es =
     \<lparr>usedTemplates = Map.empty, usedTemplates_proto = None, defaultTemplate = None,
      templateNotYetRegisteredQueue = Map.empty, windowLoaded = False, load_listeners = [],
      elems = es, nodes_created = 0\<rparr>"

text \<open>
  The states of an element that the specification names: in state Active the three nodes
  exist and a template is assigned. Between two calls of its methods the flag
  \<^verbatim>\<open>ignoreValueUpdate\<close> is false.
\<close>

definition Active :: "elem \<Rightarrow> bool" where
  "Active e = (textareaElement e \<noteq> None \<and> preElement e \<noteq> None \<and> codeElement e \<noteq> None
               \<and> template e \<noteq> None \<and> \<not> ignoreValueUpdate e)"

text \<open>
  The markup \<^verbatim>\<open>update\<close> writes to the \<^verbatim>\<open>code\<close> element, as the specification has it,
  and the text the element then holds: the text of the call, with the space behind a final
  line feed, its newlines normalised and without the character with code 0.
\<close>

definition display_copy :: "string \<Rightarrow> string" where
  "display_copy T = escapeHtml T @ (if T \<noteq> [] \<and> last T = CHR 0x0A then '' '' else [])"

definition display_text :: "string \<Rightarrow> string" where
  "display_text T =
     filter (\<lambda>c. c \<noteq> CHR 0x00)
       (normalize_newlines (T @ (if T \<noteq> [] \<and> last T = CHR 0x0A then '' '' else [])))"

text \<open>Escaping character by character, as the specification describes it.\<close>

definition escape_char :: "char \<Rightarrow> string" where
  "escape_char c = (if c = CHR ''&'' then ''&amp;'' else if c = CHR ''<'' then ''&lt;'' else [c])"

definition escape_lt :: "char \<Rightarrow> string" where
  "escape_lt c = (if c = CHR ''<'' then ''&lt;'' else [c])"

text \<open>
  The class that \<^verbatim>\<open>setup\<close> adds for the language of the element, if it adds one, is a
  token the class list accepts: the template is not for code, or the attribute \<^verbatim>\<open>lang\<close>
  has no white space.
\<close>

definition lang_accepted :: "template \<Rightarrow> elem \<Rightarrow> bool" where
  "lang_accepted t e =
     (case getAttribute ''lang'' (attributes e) of
        None \<Rightarrow> True
      | Some l \<Rightarrow> \<not> (t_isCode t \<and> list_ex ascii_whitespace l))"

subsection \<open>An example document\<close>

text \<open>
  A template with one plugin, a highlight function that wraps what it finds in a
  \<^verbatim>\<open>span\<close>, and the element \<^verbatim>\<open><code-input lang="js" template="demo">a&lt;b</code-input>\<close>,
  connected, before and after \<^verbatim>\<open>setup\<close>.
\<close>

definition example_template :: template where
  "example_template =
     \<lparr>t_highlight = Some 0, t_preElementStyled = True, t_isCode = True,
      t_includeCodeInputInHighlightFunc = False, t_plugins = [7]\<rparr>"

definition example_highlighter :: highlighter where
  "example_highlighter f c owner =
     (case c of Text s \<Rightarrow> ''<span>'' @ serialize_text s @ ''</span>''
              | Nodes m \<Rightarrow> ''<span>'' @ m @ ''</span>'')"

definition example_pending :: elem where
  "example_pending =
     (new_elem [(''lang'', ''js''), (''template'', ''demo'')] ''a&lt;b'')
       \<lparr>isConnected := True, template := Some example_template,
        mutationObserver := Some 0, observers := [0], observers_made := 1\<rparr>"

definition example_active :: elem where
  "example_active =
     \<lparr>attributes = [(''lang'', ''js''), (''template'', ''demo'')], innerHTML = [],
      classList = [''code-input_registered'', ''code-input_pre-element-styled'', ''code-input_loaded''],
      isConnected = True, p_value = ''a<b'',
      textareaElement = Some
        \<lparr>ta_id = 0, ta_value = ''a<b'', ta_placeholder = ''js'', ta_innerHTML = ''a&lt;b'',
         ta_attributes = [(''spellcheck'', ''false'')],
         ta_listeners = [(''input'', InputClosure, False), (''scroll'', ScrollClosure, False)]\<rparr>,
      preElement = Some
        \<lparr>dn_id = 2, dn_classList = [], dn_attributes = [(''aria-hidden'', ''true'')]\<rparr>,
      codeElement = Some
        \<lparr>dn_id = 1, dn_classList = [''language-js''], dn_attributes = [],
         cn_content = Nodes ''<span>a&lt;b</span>''\<rparr>,
      template = Some example_template, ignoreValueUpdate = False,
      boundEventCallbacks = Map.empty, initialValue = Some ''a<b'', listeners = [],
      bound_made = 0, mutationObserver = Some 0, observers = [0], observers_made = 1,
      log = [PluginCall 7 ''beforeElementsAdded'' [], PluginCall 7 ''afterElementsAdded'' [],
             PluginCall 7 ''beforeHighlight'' [], HighlightCall 0 (Text ''a<b'') False,
             PluginCall 7 ''afterHighlight'' []]\<rparr>"

text \<open>
  An Active element whose \<^verbatim>\<open>code\<close> element has the classes of two languages; the handler
  of \<^verbatim>\<open>lang\<close> leaves such lists behind, since it removes only the class of the value it is
  told was the old one.
\<close>

definition example_two_languages :: elem where
  "example_two_languages =
     example_active\<lparr>codeElement := Some
        \<lparr>dn_id = 1, dn_classList = [''language-py'', ''language-rb''], dn_attributes = [],
         cn_content = Nodes ''<span>a&lt;b</span>''\<rparr>\<rparr>"

text \<open>
  The document when the template \<^verbatim>\<open>demo\<close> is registered, the window has loaded and
  element 0 is set up; the same document after the attribute \<^verbatim>\<open>template\<close> of element 0
  has been set to \<^verbatim>\<open>nope\<close>, and after it has been set to \<^verbatim>\<open>toString\<close>.
\<close>

definition example_world :: world where
  "example_world =
     \<lparr>usedTemplates = [''demo'' \<mapsto> example_template], usedTemplates_proto = None,
      defaultTemplate = Some ''demo'',
      templateNotYetRegisteredQueue = Map.empty, windowLoaded = True, load_listeners = [],
      elems = (\<lambda>i. new_elem [] [])(0 := example_active), nodes_created = 3\<rparr>"

definition example_retemplated :: world where
  "example_retemplated =
     example_world\<lparr>elems := (elems example_world)
        (0 := example_active\<lparr>attributes := [(''lang'', ''js''), (''template'', ''nope'')]\<rparr>)\<rparr>"

definition example_inherited :: world where
  "example_inherited =
     example_world\<lparr>elems := (elems example_world)
        (0 := example_active\<lparr>attributes := [(''lang'', ''js''), (''template'', ''toString'')]\<rparr>)\<rparr>"

text \<open>
  The document in which element 0 was connected before the template \<^verbatim>\<open>demo\<close> is
  registered, and the window has loaded; the same document with an element whose language
  is \<^verbatim>\<open>objective c\<close>; and a document with one element that asks for the template
  \<^verbatim>\<open>a\<close>.
\<close>

definition example_queued :: world where
  "example_queued =
     \<lparr>usedTemplates = Map.empty, usedTemplates_proto = None, defaultTemplate = None,
      templateNotYetRegisteredQueue = [''demo'' \<mapsto> [0]], windowLoaded = True, load_listeners = [],
      elems = (\<lambda>i. new_elem [] [])(0 := example_pending\<lparr>template := None\<rparr>), nodes_created = 0\<rparr>"

definition example_spaced :: world where
  "example_spaced =
     example_queued\<lparr>elems := (elems example_queued)
        (0 := (elems example_queued 0)\<lparr>attributes := [(''lang'', ''objective c''), (''template'', ''demo'')]\<rparr>)\<rparr>"

definition example_unregistered :: world where
  "example_unregistered = new_world ((\<lambda>i. new_elem [] [])(0 := new_elem [(''template'', ''a'')] []))"

text \<open>
  The calls that one run of lines 505-526 adds to the log, and the element it leaves, for
  a template whose highlight function is \<open>f\<close>.
\<close>

definition render_calls :: "nat \<Rightarrow> template \<Rightarrow> string \<Rightarrow> event list" where
  "render_calls f t v =
     map (\<lambda>p. PluginCall p ''beforeHighlight'' []) (t_plugins t)
     @ [HighlightCall f (Text (display_text v)) (t_includeCodeInputInHighlightFunc t)]
     @ map (\<lambda>p. PluginCall p ''afterHighlight'' []) (t_plugins t)"

definition rendered :: "highlighter \<Rightarrow> nat \<Rightarrow> template \<Rightarrow> string \<Rightarrow> elem \<Rightarrow> elem" where
  "rendered hl f t v e =
     e\<lparr>p_value := v, ignoreValueUpdate := False,
       textareaElement :=
         map_option (\<lambda>ta. if textarea_value ta \<noteq> v then ta\<lparr>ta_value := v\<rparr> else ta) (textareaElement e),
       codeElement :=
         map_option (\<lambda>c. c\<lparr>cn_content := Nodes (hl f (Text (display_text v))
                       (if t_includeCodeInputInHighlightFunc t then Some (v, attributes e) else None))\<rparr>)
           (codeElement e),
       log := log e @ render_calls f t v\<rparr>"

text \<open>
  The element of \<^verbatim>\<open>setup\<close> at line 593, behind the hook \<^verbatim>\<open>beforeElementsAdded\<close>, and at
  line 653, behind the hook \<^verbatim>\<open>afterElementsAdded\<close>, when the template is \<open>t\<close> and the
  class of the language is accepted.
\<close>

definition prepared :: "template \<Rightarrow> elem \<Rightarrow> elem" where
  "prepared t e =
     e\<lparr>classList :=
         (if t_preElementStyled t
          then add_token ''code-input_pre-element-styled''
                 (add_token ''code-input_registered'' (classList e))
          else add_token ''code-input_registered'' (classList e)),
       log := log e @ map (\<lambda>p. PluginCall p ''beforeElementsAdded'' []) (t_plugins t)\<rparr>"

definition language_classes :: "template \<Rightarrow> elem \<Rightarrow> string list" where
  "language_classes t e =
     (case getAttribute ''lang'' (attributes e) of
        None \<Rightarrow> []
      | Some l \<Rightarrow> if t_isCode t \<and> l \<noteq> [] then [''language-'' @ l] else [])"

definition built :: "nat \<Rightarrow> template \<Rightarrow> elem \<Rightarrow> elem" where
  "built n t e =
     (add_elements n (prepared t e))
       \<lparr>codeElement := Some ((new_code n)\<lparr>dn_classList := language_classes t e\<rparr>),
        log := log (prepared t e) @ map (\<lambda>p. PluginCall p ''afterElementsAdded'' []) (t_plugins t)\<rparr>"

text \<open>Templates as a caller passes them, one valid and one with a flag that is a text.\<close>

definition example_template_obj :: template_obj where
  "example_template_obj =
     \<lparr>highlight = JFunction 0, preElementStyled = JBool True, isCode = JBool True,
      includeCodeInputInHighlightFunc = JBool False, plugins = JArray [JPlugin 7], others = []\<rparr>"

definition example_bad_template_obj :: template_obj where
  "example_bad_template_obj = example_template_obj\<lparr>isCode := JString ''yes''\<rparr>"
text \<open>A listener of the page, for the examples.\<close>

definition example_listener :: fn where
  "example_listener = UserFn 1 ''function onInput(evt) { }''"

text \<open>
  The calls \<^verbatim>\<open>update(v1)\<close>, ..., \<^verbatim>\<open>update(vn)\<close> one after the other; the listeners for
  \<^verbatim>\<open>code-input_load\<close> that such calls add before the textarea exists, the first bound
  function being the \<open>k\<close>-th; and the element after the renders of \<open>v1\<close>, ..., \<open>vn\<close>.
\<close>

fun updates :: "highlighter \<Rightarrow> string list \<Rightarrow> elem \<Rightarrow> elem" where
  "updates hl [] e = e"
| "updates hl (v # vs) e = updates hl vs (snd (update hl v e))"

definition deferred_updates :: "nat \<Rightarrow> string list \<Rightarrow> listener list" where
  "deferred_updates k vs =
     map (\<lambda>(j, v). (''code-input_load'', Bound j (UpdateClosure v), False)) (enumerate k vs)"

definition rerendered :: "highlighter \<Rightarrow> nat \<Rightarrow> template \<Rightarrow> string list \<Rightarrow> elem \<Rightarrow> elem" where
  "rerendered hl f t vs e = foldl (\<lambda>e' v. rendered hl f t v e') e vs"

text \<open>
  Every listener for \<^verbatim>\<open>code-input_load\<close> on the element is a bound function the element
  has made.
\<close>

definition load_listeners_fresh :: "elem \<Rightarrow> bool" where
  "load_listeners_fresh e =
     list_all (\<lambda>l. fst l = ''code-input_load'' \<longrightarrow>
                 (case fst (snd l) of Bound k g \<Rightarrow> k < bound_made e | _ \<Rightarrow> False)) (listeners e)"

text \<open>
  The numbers of the three nodes of an element, and the relation between an element that
  has its textarea and a later state of it in which the three nodes are the same ones.
\<close>

definition surfaces :: "elem \<Rightarrow> nat option \<times> nat option \<times> nat option" where
  "surfaces e = (map_option ta_id (textareaElement e), map_option dn_id (preElement e),
                 map_option dn_id (codeElement e))"

definition same_nodes :: "elem \<Rightarrow> elem \<Rightarrow> bool" where
  "same_nodes e e' = (textareaElement e \<noteq> None \<longrightarrow> surfaces e' = surfaces e)"

definition has_surfaces :: "elem \<Rightarrow> bool" where
  "has_surfaces e = (textareaElement e \<noteq> None \<and> preElement e \<noteq> None \<and> codeElement e \<noteq> None)"


text \<open>
  What can happen to the document: the page registers a template, the browser connects or
  disconnects an element, the window loads, the page sets or removes an attribute, the
  page calls a method of an element, and the user types in the textarea. An exception ends
  the call and leaves the state as it is then.
\<close>

datatype action =
    Register jsval template_obj
  | Connect nat
  | Disconnect nat
  | WindowLoad
  | AttributeChange nat string "string option"
  | CallUpdate nat string
  | SetValue nat "string option"
  | AddListener nat string fn jsval
  | RemoveListener nat string fn jsval
  | CallSetup nat
  | CallConnectedCallback nat
  | UserInput nat string

definition on_elem :: "nat \<Rightarrow> (elem \<Rightarrow> outcome) \<Rightarrow> world \<Rightarrow> world" where
  "on_elem i f w = w\<lparr>elems := (elems w)(i := snd (f (elems w i)))\<rparr>"

definition call_setup :: "highlighter \<Rightarrow> nat \<Rightarrow> world \<Rightarrow> world" where
  "call_setup hl i w =
     (case setup_elem hl (nodes_created w) (elems w i) of
        ((r, e'), n') \<Rightarrow> w\<lparr>elems := (elems w)(i := e'), nodes_created := n'\<rparr>)"

text \<open>
  The page sets or removes an attribute of element \<open>i\<close>. Every observer that watches the
  element reports the change with the value the attribute had, and the callback of each
  runs; what one of them throws does not stop the others. The removal of an attribute the
  element does not have is no change.
\<close>

definition change_attribute :: "highlighter \<Rightarrow> nat \<Rightarrow> string \<Rightarrow> string option \<Rightarrow> world \<Rightarrow> world" where
  "change_attribute hl i name newValue w =
     (let e = elems w i;
          oldValue = getAttribute name (attributes e);
          w1 = w\<lparr>elems := (elems w)(i := e\<lparr>attributes :=
                  (case newValue of
                     None \<Rightarrow> removeAttribute name (attributes e)
                   | Some v \<Rightarrow> setAttribute name v (attributes e))\<rparr>)\<rparr>
      in if newValue = None \<and> oldValue = None then w1
         else fold (\<lambda>k w'. snd (mutationObserverCallback hl i name oldValue w')) (observers e) w1)"
text \<open>
  The user types in the textarea: it has the new text, and its listeners for \<^verbatim>\<open>input\<close>
  are called.
\<close>

definition textarea_input :: "highlighter \<Rightarrow> string \<Rightarrow> elem \<Rightarrow> outcome" where
  "textarea_input hl v e =
     (case textareaElement e of
        None \<Rightarrow> (None, e)
      | Some ta \<Rightarrow>
          (None, dispatch_list hl ''input'' (filter (\<lambda>l. fst l = ''input'') (ta_listeners ta))
                   (e\<lparr>textareaElement := Some (ta\<lparr>ta_value := v\<rparr>)\<rparr>)))"

definition perform :: "highlighter \<Rightarrow> action \<Rightarrow> world \<Rightarrow> world" where
  "perform hl a w =
     (case a of
        Register name d \<Rightarrow> snd (registerTemplate hl name d w)
      | Connect i \<Rightarrow> snd (connect hl i w)
      | Disconnect i \<Rightarrow> disconnect i w
      | WindowLoad \<Rightarrow> window_load hl w
      | AttributeChange i name v \<Rightarrow> change_attribute hl i name v w
      | CallUpdate i v \<Rightarrow> on_elem i (update hl v) w
      | SetValue i v \<Rightarrow> on_elem i (set_value hl v) w
      | AddListener i ty f opts \<Rightarrow> on_elem i (addEventListener ty f opts) w
      | RemoveListener i ty f opts \<Rightarrow> on_elem i (removeEventListener ty f opts) w
      | CallSetup i \<Rightarrow> call_setup hl i w
      | CallConnectedCallback i \<Rightarrow> snd (connectedCallback hl i w)
      | UserInput i v \<Rightarrow> on_elem i (textarea_input hl v) w)"

text \<open>
  The element behind lines 777-786 when the class lists accept the tokens: the class
  lists of the \<^verbatim>\<open>code\<close> and the \<^verbatim>\<open>pre\<close> element and the placeholder are changed.
\<close>

definition lang_code_classes :: "string \<Rightarrow> string option \<Rightarrow> string list \<Rightarrow> string list" where
  "lang_code_classes old newValue cl =
     (let cl2 = remove_token ''language-none'' (remove_token (''language-'' @ old) cl)
      in case newValue of
           None \<Rightarrow> cl2
         | Some n \<Rightarrow> if n \<noteq> [] then add_token (''language-'' @ n) cl2 else cl2)"

definition lang_pre_classes :: "string \<Rightarrow> string list \<Rightarrow> string list" where
  "lang_pre_classes old cl = remove_token ''language-none'' (remove_token (''language-'' @ old) cl)"

definition lang_classes_applied :: "string \<Rightarrow> string option \<Rightarrow> elem \<Rightarrow> elem" where
  "lang_classes_applied old newValue e =
     e\<lparr>codeElement :=
         map_option (\<lambda>c. c\<lparr>dn_classList := lang_code_classes old newValue (dn_classList c)\<rparr>) (codeElement e),
       preElement :=
         map_option (\<lambda>p. p\<lparr>dn_classList := lang_pre_classes old (dn_classList p)\<rparr>) (preElement e)\<rparr>"

definition lang_applied :: "string \<Rightarrow> string option \<Rightarrow> elem \<Rightarrow> elem" where
  "lang_applied old newValue e =
     (lang_classes_applied old newValue e)
       \<lparr>textareaElement :=
         map_option (\<lambda>ta. ta\<lparr>ta_placeholder :=
                       (if ta_placeholder ta = old then dom_string newValue else ta_placeholder ta)\<rparr>)
           (textareaElement e)\<rparr>"

section \<open>Escaping\<close>

lemma replace_amp:
  "replace_g ''&'' ''&amp;'' t = concat (map (\<lambda>c. if c = CHR ''&'' then ''&amp;'' else [c]) t)"
  by (induction t) auto

lemma escapeHtml_chars: "escapeHtml t = concat (map escape_char t)"
  unfolding escapeHtml_def replace_amp
  by (induction t) (auto simp: escape_char_def)

lemma escapeHtml_space: "escapeHtml (t @ '' '') = escapeHtml t @ '' ''"
  by (simp add: escapeHtml_chars escape_char_def)

lemma unescape_amp:
  "replace_g ''&amp;'' ''&'' (concat (map escape_char t)) = concat (map escape_lt t)"
  by (induction t) (auto simp: escape_char_def escape_lt_def)

lemma prefix_escape_lt:
  "prefix p (concat (map escape_lt t)) \<Longrightarrow> CHR ''&'' \<notin> set p \<Longrightarrow> CHR ''<'' \<notin> set p \<Longrightarrow> prefix p t"
proof (induction p arbitrary: t)
  case Nil
  then show ?case by simp
next
  case (Cons a p)
  show ?case
  proof (cases t)
    case Nil
    with Cons.prems show ?thesis by simp
  next
    case (Cons b t')
    with Cons.prems Cons.IH[of t'] show ?thesis
      by (auto simp: escape_lt_def split: if_splits)
  qed
qed

lemma unescape_lt:
  "\<not> str_includes t ''&lt;'' \<Longrightarrow> replace_g ''&lt;'' ''<'' (concat (map escape_lt t)) = t"
proof (induction t)
  case Nil
  then show ?case by simp
next
  case (Cons c t)
  have rest: "\<not> str_includes t ''&lt;''"
    using Cons.prems by simp
  show ?case
  proof (cases "c = CHR ''<''")
    case True
    then show ?thesis using Cons.IH[OF rest] by (simp add: escape_lt_def)
  next
    case False
    then have single: "escape_lt c = [c]" by (simp add: escape_lt_def)
    show ?thesis
    proof (cases "c = CHR ''&''")
      case True
      have "\<not> prefix ''lt;'' t" using Cons.prems True by simp
      then have "\<not> prefix ''lt;'' (concat (map escape_lt t))"
        using prefix_escape_lt[of "''lt;''" t] by auto
      then show ?thesis using True single Cons.IH[OF rest] by simp
    next
      case other: False
      then show ?thesis using single Cons.IH[OF rest] by simp
    qed
  qed
qed

lemma replace_absent: "pat \<noteq> [] \<Longrightarrow> \<not> str_includes t pat \<Longrightarrow> replace_g pat rep t = t"
  by (induction t) auto

lemma str_includes_sublist: "str_includes t pat = sublist pat t"
  by (induction t) (auto simp: sublist_Cons_right)

text \<open>
  Claim C2. For every text \<open>T\<close> in which none of \<^verbatim>\<open>&amp;\<close>, \<^verbatim>\<open>&lt;\<close>, \<^verbatim>\<open>&gt;\<close> occurs,
  \<open>unescapeHtml (escapeHtml T) = T\<close>; \<open>escapeHtml\<close> rewrites the text character by
  character, \<^verbatim>\<open>&\<close> to \<^verbatim>\<open>&amp;\<close> and \<^verbatim>\<open><\<close> to \<^verbatim>\<open>&lt;\<close>, and leaves every other
  character, \<^verbatim>\<open>>\<close> among them, as it is; \<open>unescapeHtml\<close> also turns \<^verbatim>\<open>&gt;\<close> into
  \<^verbatim>\<open>>\<close>.
\<close>

theorem unescape_escape_roundtrip:
  assumes "\<not> str_includes T ''&amp;''" and "\<not> str_includes T ''&lt;''" and "\<not> str_includes T ''&gt;''"
  shows "unescapeHtml (escapeHtml T) = T
         \<and> escapeHtml T = concat (map escape_char T)
         \<and> escape_char CHR ''>'' = ''>''
         \<and> unescapeHtml ''&gt;'' = ''>''"
proof -
  have "unescapeHtml (escapeHtml T) = T"
    using assms(2,3) by (simp add: unescapeHtml_def escapeHtml_chars unescape_amp unescape_lt replace_absent)
  moreover have "escape_char CHR ''>'' = ''>''" by (simp add: escape_char_def)
  moreover have "unescapeHtml ''&gt;'' = ''>''" by (simp add: unescapeHtml_def)
  ultimately show ?thesis by (simp add: escapeHtml_chars)
qed

theorem unescape_escape_roundtrip_witness:
  "\<not> str_includes ''a<b && c>d'' ''&amp;'' \<and> \<not> str_includes ''a<b && c>d'' ''&lt;''
   \<and> \<not> str_includes ''a<b && c>d'' ''&gt;''
   \<and> escapeHtml ''a<b && c>d'' = ''a&lt;b &amp;&amp; c>d''
   \<and> unescapeHtml ''a&lt;b &amp;&amp; c>d'' = ''a<b && c>d''"
proof -
  have h1: "\<not> str_includes ''a<b && c>d'' ''&amp;''" by simp
  have h2: "\<not> str_includes ''a<b && c>d'' ''&lt;''" by simp
  have h3: "\<not> str_includes ''a<b && c>d'' ''&gt;''" by simp
  have e: "escapeHtml ''a<b && c>d'' = ''a&lt;b &amp;&amp; c>d''"
    by (simp add: escapeHtml_def)
  have r: "unescapeHtml (escapeHtml ''a<b && c>d'') = ''a<b && c>d''"
    using unescape_escape_roundtrip[OF h1 h2 h3] by blast
  from h1 h2 h3 e r[unfolded e] show ?thesis by blast
qed

section \<open>The parser and the escaped text\<close>

lemma normalize_other:
  "c \<noteq> CHR 0x0D \<Longrightarrow> normalize_newlines (c # s) = c # normalize_newlines s"
  by (cases s) simp_all

lemma normalize_append:
  "CHR 0x0D \<notin> set xs \<Longrightarrow> normalize_newlines (xs @ s) = xs @ normalize_newlines s"
proof (induction xs)
  case Nil
  then show ?case by simp
next
  case (Cons a xs)
  then have "a \<noteq> CHR 0x0D" by auto
  then show ?case using Cons by (simp add: normalize_other del: normalize_newlines.simps)
qed

lemma normalize_cr:
  "s = [] \<or> hd s \<noteq> CHR 0x0A \<Longrightarrow>
   normalize_newlines (CHR 0x0D # s) = CHR 0x0A # normalize_newlines s"
  by (cases s) auto

lemma escape_char_no_cr: "c \<noteq> CHR 0x0D \<Longrightarrow> CHR 0x0D \<notin> set (escape_char c)"
  by (simp add: escape_char_def)

lemma escape_char_newline:
  "escape_char CHR 0x0D = [CHR 0x0D]" "escape_char CHR 0x0A = [CHR 0x0A]"
  by (simp_all add: escape_char_def)

lemma escape_char_hd: "d \<noteq> CHR 0x0A \<Longrightarrow> hd (escape_char d @ s) \<noteq> CHR 0x0A"
  by (simp add: escape_char_def)

lemma normalize_escape:
  "normalize_newlines (concat (map escape_char t)) = concat (map escape_char (normalize_newlines t))"
proof (induction t rule: normalize_newlines.induct)
  case 1
  then show ?case by simp
next
  case (2 c)
  then show ?case by (simp add: escape_char_def)
next
  case (3 c d cs)
  show ?case
  proof (cases "c = CHR 0x0D")
    case True
    show ?thesis
    proof (cases "d = CHR 0x0A")
      case lf: True
      with True 3(1) show ?thesis by (simp add: escape_char_newline)
    next
      case False
      have "normalize_newlines (CHR 0x0D # (escape_char d @ concat (map escape_char cs)))
              = CHR 0x0A # normalize_newlines (escape_char d @ concat (map escape_char cs))"
        by (rule normalize_cr) (simp add: escape_char_hd[OF False])
      moreover have "normalize_newlines (CHR 0x0D # d # cs) = CHR 0x0A # normalize_newlines (d # cs)"
        using False by simp
      ultimately show ?thesis
        using True 3(2)[OF True False] by (simp add: escape_char_newline del: normalize_newlines.simps)
    qed
  next
    case False
    have "normalize_newlines (escape_char c @ concat (map escape_char (d # cs)))
            = escape_char c @ normalize_newlines (concat (map escape_char (d # cs)))"
      by (rule normalize_append) (rule escape_char_no_cr[OF False])
    moreover have "normalize_newlines (c # d # cs) = c # normalize_newlines (d # cs)"
      using False by simp
    ultimately show ?thesis
      using 3(3)[OF False] by (simp del: normalize_newlines.simps)
  qed
qed

lemma html_text_escape:
  "html_text (concat (map escape_char t)) = Some (filter (\<lambda>c. c \<noteq> CHR 0x00) t)"
  by (induction t) (auto simp: escape_char_def)

lemma parse_escaped:
  "parse_fragment (escapeHtml s) = Text (filter (\<lambda>c. c \<noteq> CHR 0x00) (normalize_newlines s))"
  by (simp add: parse_fragment_def escapeHtml_chars normalize_escape html_text_escape)

lemma display_copy_escape:
  "display_copy T = escapeHtml (T @ (if T \<noteq> [] \<and> last T = CHR 0x0A then '' '' else []))"
  by (simp add: display_copy_def escapeHtml_space)

lemma parse_display_copy: "parse_fragment (display_copy T) = Text (display_text T)"
  by (simp only: display_copy_escape parse_escaped display_text_def)

lemma normalize_no_cr: "CHR 0x0D \<notin> set (normalize_newlines s)"
  by (induction s rule: normalize_newlines.induct) auto

lemma normalize_newlines_none: "CHR 0x0D \<notin> set s \<Longrightarrow> normalize_newlines s = s"
  using normalize_append[of s "[]"] by simp

lemma normalize_newlines_idem: "normalize_newlines (normalize_newlines s) = normalize_newlines s"
  by (rule normalize_newlines_none) (rule normalize_no_cr)

section \<open>Rendering\<close>

lemma then_do_simps [simp]:
  "then_do (None, e) f = f e"
  "then_do (Some x, e) f = (Some x, e)"
  by (simp_all add: then_do_def)

lemma then_world_simps [simp]:
  "then_world (None, w) g = g w"
  "then_world (Some x, w) g = (Some x, w)"
  by (simp_all add: then_world_def)

lemma update_ignored: "ignoreValueUpdate e \<Longrightarrow> update hl v e = (None, e)"
  by (simp add: update.simps)

lemma set_value_ignored:
  "ignoreValueUpdate e \<Longrightarrow>
   set_value hl val e = (None, e\<lparr>p_value := (case val of None \<Rightarrow> [] | Some s \<Rightarrow> s)\<rparr>)"
  by (simp add: set_value.simps update_ignored)

lemma update_active:
  "\<not> ignoreValueUpdate e \<Longrightarrow> textareaElement e \<noteq> None \<Longrightarrow>
   update hl v e = update_render hl v (e\<lparr>p_value := v, ignoreValueUpdate := False\<rparr>)"
  by (subst update.simps) (auto simp add: set_value_ignored)

lemma update_pending:
  "\<not> ignoreValueUpdate e \<Longrightarrow> textareaElement e = None \<Longrightarrow>
   update hl v e =
     (None, e\<lparr>bound_made := Suc (bound_made e),
               boundEventCallbacks := (boundEventCallbacks e)
                 (src_of (UpdateClosure v) \<mapsto> Bound (bound_made e) (UpdateClosure v)),
               listeners := dom_addEventListener ''code-input_load''
                 (Bound (bound_made e) (UpdateClosure v)) JUndefined (listeners e)\<rparr>)"
  by (subst update.simps) (simp add: addEventListener.simps textareaSyncEvents_def Let_def)

lemma pluginEvt_Some:
  "template e = Some t \<Longrightarrow>
   pluginEvt name args e = (None, e\<lparr>log := log e @ map (\<lambda>p. PluginCall p name args) (t_plugins t)\<rparr>)"
  by (simp add: pluginEvt_def)

lemma call_highlight_function:
  assumes "template e = Some t" and "t_highlight t = Some f" and "codeElement e = Some c"
  shows "call_highlight hl e =
     (None, e\<lparr>log := log e @ [HighlightCall f (cn_content c) (t_includeCodeInputInHighlightFunc t)],
               codeElement := Some (c\<lparr>cn_content := Nodes (hl f (cn_content c)
                 (if t_includeCodeInputInHighlightFunc t then Some (p_value e, attributes e) else None))\<rparr>)\<rparr>)"
  using assms by (simp add: call_highlight_def Let_def)

lemma call_highlight_no_function:
  assumes "template e = Some t" and "t_highlight t = None" and "codeElement e = Some c"
  shows "call_highlight hl e = (Some (NotAFunction ''highlight''), e)"
  using assms by (simp add: call_highlight_def)

lemma space_after_newline:
  "(if v \<noteq> [] \<and> last v = CHR 0x0A then v @ '' '' else v)
     = v @ (if v \<noteq> [] \<and> last v = CHR 0x0A then '' '' else [])"
  by simp

lemma update_render_active:
  assumes "textareaElement e = Some ta" "codeElement e = Some c" "template e = Some t"
    and "t_highlight t = Some f"
  shows "update_render hl v (e\<lparr>p_value := v, ignoreValueUpdate := False\<rparr>) = (None, rendered hl f t v e)"
proof -
  let ?e1 = "(if textarea_value ta \<noteq> v
             then e\<lparr>p_value := v, ignoreValueUpdate := False,
                    textareaElement := Some (ta\<lparr>ta_value := v\<rparr>)\<rparr>
             else e\<lparr>p_value := v, ignoreValueUpdate := False\<rparr>)"
  let ?c2 = "c\<lparr>cn_content := Text (display_text v)\<rparr>"
  let ?e3 = "?e1\<lparr>codeElement := Some ?c2,
                 log := log e @ map (\<lambda>p. PluginCall p ''beforeHighlight'' []) (t_plugins t)\<rparr>"
  have parse: "parse_fragment (escapeHtml (if v \<noteq> [] \<and> last v = CHR 0x0A then v @ '' '' else v))
                 = Text (display_text v)"
    by (simp only: space_after_newline parse_escaped display_text_def)
  have p1: "pluginEvt ''beforeHighlight'' [] (?e1\<lparr>codeElement := Some ?c2\<rparr>) = (None, ?e3)"
    using assms(3) by (simp add: pluginEvt_def)
  have h: "call_highlight hl ?e3 =
     (None, ?e3\<lparr>log := log ?e3 @ [HighlightCall f (Text (display_text v)) (t_includeCodeInputInHighlightFunc t)],
               codeElement := Some (?c2\<lparr>cn_content := Nodes (hl f (Text (display_text v))
                 (if t_includeCodeInputInHighlightFunc t then Some (v, attributes e) else None))\<rparr>)\<rparr>)"
    using assms(3,4) by (simp add: call_highlight_def Let_def)
  have "update_render hl v (e\<lparr>p_value := v, ignoreValueUpdate := False\<rparr>)
          = then_do (pluginEvt ''beforeHighlight'' [] (?e1\<lparr>codeElement := Some ?c2\<rparr>))
              (\<lambda>e3. then_do (call_highlight hl e3) (pluginEvt ''afterHighlight'' []))"
    using assms(1,2) by (simp add: update_render_def Let_def parse)
  also have "\<dots> = then_do (call_highlight hl ?e3) (pluginEvt ''afterHighlight'' [])"
    by (simp only: p1 then_do_simps)
  also have "\<dots> = (None, rendered hl f t v e)"
    unfolding h using assms(1-3)
    by (simp add: pluginEvt_def rendered_def render_calls_def)
  finally show ?thesis .
qed

lemma update_Active:
  assumes "textareaElement e = Some ta" "codeElement e = Some c" "template e = Some t"
    and "t_highlight t = Some f" and "\<not> ignoreValueUpdate e"
  shows "update hl v e = (None, rendered hl f t v e)"
  using assms by (simp add: update_active update_render_active)

lemma rendered_parts:
  "textareaElement (rendered hl f t v e)
     = map_option (\<lambda>ta. if textarea_value ta \<noteq> v then ta\<lparr>ta_value := v\<rparr> else ta) (textareaElement e)"
  "preElement (rendered hl f t v e) = preElement e"
  "template (rendered hl f t v e) = template e"
  "\<not> ignoreValueUpdate (rendered hl f t v e)"
  "p_value (rendered hl f t v e) = v"
  "log (rendered hl f t v e) = log e @ render_calls f t v"
  "listeners (rendered hl f t v e) = listeners e"
  "(codeElement (rendered hl f t v e) = None) = (codeElement e = None)"
  by (simp_all add: rendered_def)

lemma rendered_textarea_value:
  assumes "textareaElement e = Some ta"
  shows "\<exists>ta'. textareaElement (rendered hl f t v e) = Some ta'
               \<and> textarea_value ta' = normalize_newlines v"
proof (cases "textarea_value ta = v")
  case True
  then have "normalize_newlines v = v"
    by (metis normalize_newlines_idem textarea_value_def)
  with True assms show ?thesis by (simp add: rendered_parts)
next
  case False
  with assms show ?thesis by (simp add: rendered_parts textarea_value_def)
qed

text \<open>
  Claim C1, amended. For every text \<open>T\<close>, \<^verbatim>\<open>update(T)\<close> on an Active element whose
  template has a highlight function returns, and then the value of the element is \<open>T\<close>.
  The value of the textarea is \<open>T\<close> with its newlines normalised, which is \<open>T\<close> itself when
  \<open>T\<close> has no carriage return. The highlight function is called once, between the two
  plugin hooks, and finds in the \<^verbatim>\<open>code\<close> element what the parser makes of the markup
  \<open>escapeHtml T\<close>, followed by one space when \<open>T\<close> ends in a line feed: one text node
  that holds \<open>T\<close>, with that space, with its newlines normalised and without the character
  with code 0.
\<close>

theorem update_value_and_display:
  assumes "Active e" and "template e = Some t" and "t_highlight t = Some f"
  shows "\<exists>e' ta'. update hl T e = (None, e')
           \<and> get_value e' = T
           \<and> textareaElement e' = Some ta' \<and> textarea_value ta' = normalize_newlines T
           \<and> (CHR 0x0D \<notin> set T \<longrightarrow> textarea_value ta' = T)
           \<and> log e' = log e
                @ map (\<lambda>p. PluginCall p ''beforeHighlight'' []) (t_plugins t)
                @ [HighlightCall f
                     (parse_fragment (escapeHtml T @ (if T \<noteq> [] \<and> last T = CHR 0x0A then '' '' else [])))
                     (t_includeCodeInputInHighlightFunc t)]
                @ map (\<lambda>p. PluginCall p ''afterHighlight'' []) (t_plugins t)
           \<and> parse_fragment (escapeHtml T @ (if T \<noteq> [] \<and> last T = CHR 0x0A then '' '' else []))
               = Text (filter (\<lambda>c. c \<noteq> CHR 0x00)
                         (normalize_newlines (T @ (if T \<noteq> [] \<and> last T = CHR 0x0A then '' '' else []))))"
proof -
  from assms(1) obtain ta c where
    parts: "textareaElement e = Some ta" "codeElement e = Some c"
    and idle: "\<not> ignoreValueUpdate e"
    by (auto simp: Active_def)
  have u: "update hl T e = (None, rendered hl f t T e)"
    using parts assms(2,3) idle by (rule update_Active)
  from rendered_textarea_value[OF parts(1), of hl f t T] obtain ta' where
    ta': "textareaElement (rendered hl f t T e) = Some ta'" "textarea_value ta' = normalize_newlines T"
    by blast
  have p: "parse_fragment (escapeHtml T @ (if T \<noteq> [] \<and> last T = CHR 0x0A then '' '' else []))
             = Text (display_text T)"
    using parse_display_copy[of T] by (simp only: display_copy_def)
  have v: "get_value (rendered hl f t T e) = T"
    by (simp add: get_value_def rendered_parts)
  have n: "CHR 0x0D \<notin> set T \<longrightarrow> textarea_value ta' = T"
    using ta'(2) by (simp add: normalize_newlines_none)
  have l: "log (rendered hl f t T e) = log e
                @ map (\<lambda>p. PluginCall p ''beforeHighlight'' []) (t_plugins t)
                @ [HighlightCall f
                     (parse_fragment (escapeHtml T @ (if T \<noteq> [] \<and> last T = CHR 0x0A then '' '' else [])))
                     (t_includeCodeInputInHighlightFunc t)]
                @ map (\<lambda>p. PluginCall p ''afterHighlight'' []) (t_plugins t)"
    unfolding p by (simp add: rendered_parts render_calls_def)
  from u v ta' n l p[unfolded display_text_def] show ?thesis by blast
qed

lemma example_active_parts:
  "isConnected example_active" "\<not> ignoreValueUpdate example_active"
  "textareaElement example_active = Some
        \<lparr>ta_id = 0, ta_value = ''a<b'', ta_placeholder = ''js'', ta_innerHTML = ''a&lt;b'',
         ta_attributes = [(''spellcheck'', ''false'')],
         ta_listeners = [(''input'', InputClosure, False), (''scroll'', ScrollClosure, False)]\<rparr>"
  "preElement example_active = Some
        \<lparr>dn_id = 2, dn_classList = [], dn_attributes = [(''aria-hidden'', ''true'')]\<rparr>"
  "codeElement example_active = Some
        \<lparr>dn_id = 1, dn_classList = [''language-js''], dn_attributes = [],
         cn_content = Nodes ''<span>a&lt;b</span>''\<rparr>"
  "template example_active = Some example_template"
  by (simp_all add: example_active_def)

lemma example_template_parts:
  "t_highlight example_template = Some 0" "t_plugins example_template = [7]"
  "t_includeCodeInputInHighlightFunc example_template = False"
  "t_isCode example_template" "t_preElementStyled example_template"
  by (simp_all add: example_template_def)

lemma example_active_Active: "Active example_active"
  by (simp add: Active_def example_active_parts)

lemma example_active_update:
  "update example_highlighter v example_active = (None, rendered example_highlighter 0 example_template v example_active)"
  by (rule update_Active[OF example_active_parts(3,5,6) example_template_parts(1) example_active_parts(2)])

text \<open>The theorem at the example element, for a text that ends in a line feed.\<close>

theorem update_value_and_display_witness:
  "Active example_active
   \<and> get_value (snd (update example_highlighter [CHR ''x'', CHR 0x0A] example_active)) = [CHR ''x'', CHR 0x0A]
   \<and> map_option textarea_value (textareaElement (snd (update example_highlighter [CHR ''x'', CHR 0x0A] example_active)))
       = Some [CHR ''x'', CHR 0x0A]
   \<and> HighlightCall 0 (Text [CHR ''x'', CHR 0x0A, CHR '' '']) False
       \<in> set (log (snd (update example_highlighter [CHR ''x'', CHR 0x0A] example_active)))"
proof -
  have esc: "escapeHtml [CHR ''x'', CHR 0x0A] = [CHR ''x'', CHR 0x0A]"
    by (simp add: escapeHtml_def)
  show ?thesis
    using update_value_and_display[OF example_active_Active example_active_parts(6) example_template_parts(1),
        of example_highlighter "[CHR ''x'', CHR 0x0A]"] example_active_Active
    by (auto simp: example_template_parts)
qed

text \<open>
  Claim C1 as stated fails. After \<^verbatim>\<open>update\<close> of a text with a carriage return and a
  line feed, the value of the element has both, the value of the textarea only the line
  feed. After \<^verbatim>\<open>update\<close> of a text that ends in a carriage return, a line terminator, the
  highlight function finds no space behind it. And after \<^verbatim>\<open>update\<close> of \<^verbatim>\<open>a>b\<close> the
  highlight function finds a text whose markup, when it is read from \<^verbatim>\<open>innerHTML\<close>, is
  \<^verbatim>\<open>a&gt;b\<close>, which is not the escaped text \<^verbatim>\<open>a>b\<close>.
\<close>

theorem update_normalises_newlines:
  "map_option textarea_value
     (textareaElement (snd (update example_highlighter [CHR ''a'', CHR 0x0D, CHR 0x0A, CHR ''b''] example_active)))
     = Some [CHR ''a'', CHR 0x0A, CHR ''b'']
   \<and> get_value (snd (update example_highlighter [CHR ''a'', CHR 0x0D, CHR 0x0A, CHR ''b''] example_active))
     = [CHR ''a'', CHR 0x0D, CHR 0x0A, CHR ''b'']
   \<and> log (snd (update example_highlighter [CHR ''x'', CHR 0x0D] example_active))
     = log example_active @ [PluginCall 7 ''beforeHighlight'' [],
         HighlightCall 0 (Text [CHR ''x'', CHR 0x0A]) False, PluginCall 7 ''afterHighlight'' []]
   \<and> log (snd (update example_highlighter ''a>b'' example_active))
     = log example_active @ [PluginCall 7 ''beforeHighlight'' [],
         HighlightCall 0 (Text ''a>b'') False, PluginCall 7 ''afterHighlight'' []]
   \<and> read_innerHTML (Text ''a>b'') = Some ''a&gt;b''
   \<and> escapeHtml ''a>b'' = ''a>b''"
proof -
  have a: "map_option textarea_value
     (textareaElement (snd (update example_highlighter [CHR ''a'', CHR 0x0D, CHR 0x0A, CHR ''b''] example_active)))
     = Some [CHR ''a'', CHR 0x0A, CHR ''b'']"
    by (simp add: example_active_update rendered_parts example_active_parts textarea_value_def)
  have b: "get_value (snd (update example_highlighter [CHR ''a'', CHR 0x0D, CHR 0x0A, CHR ''b''] example_active))
     = [CHR ''a'', CHR 0x0D, CHR 0x0A, CHR ''b'']"
    by (simp add: example_active_update rendered_parts get_value_def)
  have c: "log (snd (update example_highlighter [CHR ''x'', CHR 0x0D] example_active))
     = log example_active @ [PluginCall 7 ''beforeHighlight'' [],
         HighlightCall 0 (Text [CHR ''x'', CHR 0x0A]) False, PluginCall 7 ''afterHighlight'' []]"
    by (simp add: example_active_update rendered_parts render_calls_def example_template_parts display_text_def)
  have d: "log (snd (update example_highlighter ''a>b'' example_active))
     = log example_active @ [PluginCall 7 ''beforeHighlight'' [],
         HighlightCall 0 (Text ''a>b'') False, PluginCall 7 ''afterHighlight'' []]"
    by (simp add: example_active_update rendered_parts render_calls_def example_template_parts display_text_def)
  have e: "read_innerHTML (Text ''a>b'') = Some ''a&gt;b''"
    by (simp add: read_innerHTML_def serialize_text_def serialize_char_def)
  have f: "escapeHtml ''a>b'' = ''a>b''"
    by (simp add: escapeHtml_def)
  from a b c d e f show ?thesis by blast
qed

section \<open>Attribute changes\<close>

lemma token_error_language:
  "\<not> list_ex ascii_whitespace s \<Longrightarrow> token_error (''language-'' @ s) = None"
  by (simp add: token_error_def ascii_whitespace_def)

lemma token_error_constant:
  "token_error ''language-none'' = None"
  "token_error ''code-input_registered'' = None"
  "token_error ''code-input_pre-element-styled'' = None"
  "token_error ''code-input_loaded'' = None"
  by (simp_all add: token_error_def ascii_whitespace_def)

lemma token_error_whitespace:
  "list_ex ascii_whitespace s \<Longrightarrow> token_error (''language-'' @ s) = Some (InvalidCharacter (''language-'' @ s))"
  by (simp add: token_error_def)

lemma add_class_valid:
  "token_error tok = None \<Longrightarrow> add_class tok e = (None, e\<lparr>classList := add_token tok (classList e)\<rparr>)"
  by (simp add: add_class_def classList_add_def)

lemma remove_class_valid:
  "token_error tok = None \<Longrightarrow> remove_class tok e = (None, e\<lparr>classList := remove_token tok (classList e)\<rparr>)"
  by (simp add: remove_class_def classList_remove_def)

lemma code_add_class_valid:
  "token_error tok = None \<Longrightarrow> codeElement e = Some c \<Longrightarrow>
   code_add_class tok e = (None, e\<lparr>codeElement := Some (c\<lparr>dn_classList := add_token tok (dn_classList c)\<rparr>)\<rparr>)"
  by (simp add: code_add_class_def classList_add_def)

lemma code_add_class_invalid:
  "token_error tok = Some x \<Longrightarrow> codeElement e = Some c \<Longrightarrow> code_add_class tok e = (Some x, e)"
  by (simp add: code_add_class_def classList_add_def)

lemma code_remove_class_valid:
  "token_error tok = None \<Longrightarrow> codeElement e = Some c \<Longrightarrow>
   code_remove_class tok e = (None, e\<lparr>codeElement := Some (c\<lparr>dn_classList := remove_token tok (dn_classList c)\<rparr>)\<rparr>)"
  by (simp add: code_remove_class_def classList_remove_def)

lemma pre_remove_class_valid:
  "token_error tok = None \<Longrightarrow> preElement e = Some p \<Longrightarrow>
   pre_remove_class tok e = (None, e\<lparr>preElement := Some (p\<lparr>dn_classList := remove_token tok (dn_classList p)\<rparr>)\<rparr>)"
  by (simp add: pre_remove_class_def classList_remove_def)

lemma lang_classes_removed:
  assumes "preElement e = Some p" "codeElement e = Some c"
    and "\<not> list_ex ascii_whitespace old"
  shows "lang_classes old newValue e =
     (case newValue of
        None \<Rightarrow> (None, lang_classes_applied old None e)
      | Some n \<Rightarrow> if n \<noteq> [] then code_add_class (''language-'' @ n) (lang_classes_applied old None e)
                  else (None, lang_classes_applied old None e))"
proof -
  note t = token_error_language[OF assms(3)] token_error_constant(1)
  let ?e1 = "e\<lparr>codeElement := Some (c\<lparr>dn_classList := remove_token (''language-'' @ old) (dn_classList c)\<rparr>)\<rparr>"
  let ?e2 = "?e1\<lparr>preElement := Some (p\<lparr>dn_classList := remove_token (''language-'' @ old) (dn_classList p)\<rparr>)\<rparr>"
  let ?e3 = "?e2\<lparr>codeElement := Some (c\<lparr>dn_classList :=
                 remove_token ''language-none'' (remove_token (''language-'' @ old) (dn_classList c))\<rparr>)\<rparr>"
  let ?e4 = "?e3\<lparr>preElement := Some (p\<lparr>dn_classList :=
                 remove_token ''language-none'' (remove_token (''language-'' @ old) (dn_classList p))\<rparr>)\<rparr>"
  have s1: "code_remove_class (''language-'' @ old) e = (None, ?e1)"
    using code_remove_class_valid[OF t(1) assms(2)] .
  have s2: "pre_remove_class (''language-'' @ old) ?e1 = (None, ?e2)"
    using pre_remove_class_valid[OF t(1), of ?e1 p] assms(1) by simp
  have s3: "code_remove_class ''language-none'' ?e2 = (None, ?e3)"
    using code_remove_class_valid[OF t(2), of ?e2] by simp
  have s4: "pre_remove_class ''language-none'' ?e3 = (None, ?e4)"
    using pre_remove_class_valid[OF t(2), of ?e3] by simp
  have e4: "?e4 = lang_classes_applied old None e"
    using assms(1,2) by (simp add: lang_classes_applied_def lang_code_classes_def lang_pre_classes_def)
  show ?thesis
    unfolding lang_classes_def s1 then_do_simps s2 s3 s4 e4 ..
qed

lemma lang_classes_applied_parts:
  "codeElement (lang_classes_applied old newValue e)
     = map_option (\<lambda>c. c\<lparr>dn_classList := lang_code_classes old newValue (dn_classList c)\<rparr>) (codeElement e)"
  "preElement (lang_classes_applied old newValue e)
     = map_option (\<lambda>p. p\<lparr>dn_classList := lang_pre_classes old (dn_classList p)\<rparr>) (preElement e)"
  "textareaElement (lang_classes_applied old newValue e) = textareaElement e"
  "template (lang_classes_applied old newValue e) = template e"
  "ignoreValueUpdate (lang_classes_applied old newValue e) = ignoreValueUpdate e"
  "p_value (lang_classes_applied old newValue e) = p_value e"
  "log (lang_classes_applied old newValue e) = log e"
  by (simp_all add: lang_classes_applied_def)

lemma lang_classes_valid:
  assumes "preElement e = Some p" "codeElement e = Some c"
    and "\<not> list_ex ascii_whitespace old" and "\<not> list_ex ascii_whitespace n"
  shows "lang_classes old (Some n) e = (None, lang_classes_applied old (Some n) e)"
proof -
  let ?e4 = "lang_classes_applied old None e"
  have c4: "codeElement ?e4 = Some (c\<lparr>dn_classList := lang_code_classes old None (dn_classList c)\<rparr>)"
    using assms(2) by (simp add: lang_classes_applied_parts)
  have "code_add_class (''language-'' @ n) ?e4
          = (None, ?e4\<lparr>codeElement := Some (c\<lparr>dn_classList :=
                add_token (''language-'' @ n) (lang_code_classes old None (dn_classList c))\<rparr>)\<rparr>)"
    using code_add_class_valid[OF token_error_language[OF assms(4)] c4] by simp
  moreover have "n \<noteq> [] \<Longrightarrow> ?e4\<lparr>codeElement := Some (c\<lparr>dn_classList :=
                add_token (''language-'' @ n) (lang_code_classes old None (dn_classList c))\<rparr>)\<rparr>
             = lang_classes_applied old (Some n) e"
    using assms(1,2) by (simp add: lang_classes_applied_def lang_code_classes_def)
  moreover have "n = [] \<Longrightarrow> ?e4 = lang_classes_applied old (Some n) e"
    by (simp add: lang_classes_applied_def lang_code_classes_def)
  ultimately show ?thesis
    by (simp add: lang_classes_removed[OF assms(1-3)])
qed

lemma lang_changed_null_old:
  assumes "codeElement e = Some c" and "\<not> already_updated (map_option toLowerCase newValue) c"
  shows "lang_changed hl None newValue e = (Some (NullProperty ''toLowerCase''), e)"
  using assms by (simp add: lang_changed_def)

lemma lang_changed_already:
  assumes "codeElement e = Some c" and "already_updated (map_option toLowerCase newValue) c"
  shows "lang_changed hl old newValue e = (None, e)"
  using assms by (simp add: lang_changed_def)

lemma lang_changed_applied:
  assumes "textareaElement e = Some ta" "preElement e = Some p" "codeElement e = Some c"
    and "template e = Some t" and "t_highlight t = Some f" and "\<not> ignoreValueUpdate e"
    and "\<not> already_updated (Some (toLowerCase new)) c"
    and "\<not> list_ex ascii_whitespace (toLowerCase old)" and "\<not> list_ex ascii_whitespace (toLowerCase new)"
  shows "lang_changed hl (Some old) (Some new) e =
     (None, rendered hl f t (p_value e) (lang_applied (toLowerCase old) (Some (toLowerCase new)) e))"
proof -
  let ?e2 = "lang_classes_applied (toLowerCase old) (Some (toLowerCase new)) e"
  let ?e3 = "lang_applied (toLowerCase old) (Some (toLowerCase new)) e"
  have u: "update hl (p_value e) ?e3 = (None, rendered hl f t (p_value e) ?e3)"
    by (rule update_Active[where ta = "ta\<lparr>ta_placeholder :=
          (if ta_placeholder ta = toLowerCase old then dom_string (Some (toLowerCase new)) else ta_placeholder ta)\<rparr>"
          and c = "c\<lparr>dn_classList := lang_code_classes (toLowerCase old) (Some (toLowerCase new)) (dn_classList c)\<rparr>"])
       (simp_all add: lang_applied_def lang_classes_applied_parts assms)
  have p: "lang_placeholder hl (toLowerCase old) (Some (toLowerCase new)) ?e2 = update hl (p_value e) ?e3"
    using assms(1) by (simp add: lang_placeholder_def lang_classes_applied_parts get_value_def lang_applied_def)
  have "lang_changed hl (Some old) (Some new) e
          = then_do (lang_classes (toLowerCase old) (Some (toLowerCase new)) e)
              (lang_placeholder hl (toLowerCase old) (Some (toLowerCase new)))"
    using assms(3,7) by (simp add: lang_changed_def Let_def)
  also have "\<dots> = lang_placeholder hl (toLowerCase old) (Some (toLowerCase new)) ?e2"
    by (simp add: lang_classes_valid[OF assms(2,3,8,9)])
  finally show ?thesis using p u by simp
qed

lemma attributeChanged_lang:
  assumes "isConnected e" and "template e = Some t"
  shows "attributeChangedCallback hl used dflt ''lang'' old new e =
     lang_changed hl old new (e\<lparr>log := log e @ map (\<lambda>p. PluginCall p ''attributeChanged'' [Some ''lang'', old, new]) (t_plugins t)\<rparr>)"
  using assms by (simp add: attributeChangedCallback_def pluginEvt_Some)

lemma set_lang_code_classes:
  "set (lang_code_classes old (Some n) cl) =
     (set cl - {''language-'' @ old, ''language-none''}) \<union> (if n = [] then {} else {''language-'' @ n})"
  by (auto simp: lang_code_classes_def remove_token_def add_token_def Let_def)

lemma set_lang_pre_classes:
  "set (lang_pre_classes old cl) = set cl - {''language-'' @ old, ''language-none''}"
  by (auto simp: lang_pre_classes_def remove_token_def)

text \<open>
  Claim C6, amended. A change of the attribute \<^verbatim>\<open>lang\<close> from \<open>old\<close> to \<open>new\<close> on a
  connected Active element whose template has a highlight function, both values taken in
  lower case and neither of them with white space: when the \<^verbatim>\<open>code\<close> element already
  has the class of the new value, the handler only calls the plugins and changes nothing
  else. Otherwise the class of the old value and \<^verbatim>\<open>language-none\<close> are removed from the
  \<^verbatim>\<open>code\<close> and the \<^verbatim>\<open>pre\<close> element and no other class is; the class of the new
  value is on the \<^verbatim>\<open>code\<close> element afterwards when the new value is not empty and the
  template is for code, and is not when the new value is empty; the placeholder of the
  textarea becomes the new value when it was the old one; and the value of the element is
  rendered again.
\<close>

theorem lang_change_effect:
  assumes "isConnected e" and "\<not> ignoreValueUpdate e"
    and "textareaElement e = Some ta" and "preElement e = Some p" and "codeElement e = Some c"
    and "template e = Some t" and "t_highlight t = Some f"
    and "\<not> list_ex ascii_whitespace (toLowerCase old)"
    and "\<not> list_ex ascii_whitespace (toLowerCase new)"
  shows "(''language-'' @ toLowerCase new \<in> set (dn_classList c) \<longrightarrow>
            attributeChangedCallback hl used dflt ''lang'' (Some old) (Some new) e =
              (None, e\<lparr>log := log e @ map (\<lambda>p. PluginCall p ''attributeChanged''
                                              [Some ''lang'', Some old, Some new]) (t_plugins t)\<rparr>))
       \<and> (''language-'' @ toLowerCase new \<notin> set (dn_classList c) \<longrightarrow>
            (\<exists>e' ta' p' c'.
               attributeChangedCallback hl used dflt ''lang'' (Some old) (Some new) e = (None, e')
               \<and> textareaElement e' = Some ta' \<and> preElement e' = Some p' \<and> codeElement e' = Some c'
               \<and> set (dn_classList c') - {''language-'' @ toLowerCase new} =
                   set (dn_classList c) - {''language-'' @ toLowerCase old, ''language-none''}
               \<and> (t_isCode t \<and> toLowerCase new \<noteq> [] \<longrightarrow>
                     ''language-'' @ toLowerCase new \<in> set (dn_classList c'))
               \<and> (toLowerCase new = [] \<longrightarrow> ''language-'' @ toLowerCase new \<notin> set (dn_classList c'))
               \<and> set (dn_classList p') =
                   set (dn_classList p) - {''language-'' @ toLowerCase old, ''language-none''}
               \<and> ta_placeholder ta' =
                   (if ta_placeholder ta = toLowerCase old then toLowerCase new else ta_placeholder ta)
               \<and> textarea_value ta' = normalize_newlines (get_value e) \<and> get_value e' = get_value e
               \<and> log e' = log e
                    @ map (\<lambda>p. PluginCall p ''attributeChanged'' [Some ''lang'', Some old, Some new]) (t_plugins t)
                    @ map (\<lambda>p. PluginCall p ''beforeHighlight'' []) (t_plugins t)
                    @ [HighlightCall f (parse_fragment (display_copy (get_value e)))
                         (t_includeCodeInputInHighlightFunc t)]
                    @ map (\<lambda>p. PluginCall p ''afterHighlight'' []) (t_plugins t)))"
proof (intro conjI impI)
  let ?e1 = "e\<lparr>log := log e @ map (\<lambda>p. PluginCall p ''attributeChanged''
                                   [Some ''lang'', Some old, Some new]) (t_plugins t)\<rparr>"
  have cb: "attributeChangedCallback hl used dflt ''lang'' (Some old) (Some new) e =
              lang_changed hl (Some old) (Some new) ?e1"
    using assms(1,6) by (rule attributeChanged_lang)
  {
    assume "''language-'' @ toLowerCase new \<in> set (dn_classList c)"
    then have "already_updated (map_option toLowerCase (Some new)) c"
      by (simp add: already_updated_def classList_contains_def)
    then have "lang_changed hl (Some old) (Some new) ?e1 = (None, ?e1)"
      using assms(5) by (intro lang_changed_already[where c = c]) simp_all
    with cb show "attributeChangedCallback hl used dflt ''lang'' (Some old) (Some new) e = (None, ?e1)"
      by simp
  }
  {
    assume absent: "''language-'' @ toLowerCase new \<notin> set (dn_classList c)"
    then have fresh: "\<not> already_updated (Some (toLowerCase new)) c"
      by (simp add: already_updated_def classList_contains_def)
    let ?e' = "rendered hl f t (p_value ?e1) (lang_applied (toLowerCase old) (Some (toLowerCase new)) ?e1)"
    let ?ta1 = "ta\<lparr>ta_placeholder :=
                  (if ta_placeholder ta = toLowerCase old then toLowerCase new else ta_placeholder ta)\<rparr>"
    let ?c' = "c\<lparr>dn_classList := lang_code_classes (toLowerCase old) (Some (toLowerCase new)) (dn_classList c),
                  cn_content := Nodes (hl f (Text (display_text (p_value e)))
                    (if t_includeCodeInputInHighlightFunc t then Some (p_value e, attributes e) else None))\<rparr>"
    let ?p' = "p\<lparr>dn_classList := lang_pre_classes (toLowerCase old) (dn_classList p)\<rparr>"
    have lc: "lang_changed hl (Some old) (Some new) ?e1 = (None, ?e')"
      using assms(2-9) fresh
      by (intro lang_changed_applied[where ta = ta and p = p and c = c]) simp_all
    have ta1: "textareaElement (lang_applied (toLowerCase old) (Some (toLowerCase new)) ?e1) = Some ?ta1"
      using assms(3) by (simp add: lang_applied_def dom_string_def)
    from rendered_textarea_value[OF ta1, of hl f t "p_value ?e1"] obtain ta' where
      ta': "textareaElement ?e' = Some ta'" "textarea_value ta' = normalize_newlines (p_value e)"
      by auto
    have pl: "ta_placeholder ta' =
                (if ta_placeholder ta = toLowerCase old then toLowerCase new else ta_placeholder ta)"
      using ta'(1) ta1 by (auto simp: rendered_parts split: if_splits)
    have pre: "preElement ?e' = Some ?p'"
      using assms(4) by (simp add: rendered_parts lang_applied_def lang_classes_applied_parts)
    have code: "codeElement ?e' = Some ?c'"
      using assms(5) by (simp add: rendered_def lang_applied_def lang_classes_applied_def)
    have cls: "set (dn_classList ?c') =
                 (set (dn_classList c) - {''language-'' @ toLowerCase old, ''language-none''})
                 \<union> (if toLowerCase new = [] then {} else {''language-'' @ toLowerCase new})"
      by (simp add: set_lang_code_classes)
    have c1: "set (dn_classList ?c') - {''language-'' @ toLowerCase new} =
                   set (dn_classList c) - {''language-'' @ toLowerCase old, ''language-none''}"
      unfolding cls using absent by auto
    have c2: "t_isCode t \<and> toLowerCase new \<noteq> [] \<longrightarrow> ''language-'' @ toLowerCase new \<in> set (dn_classList ?c')"
      unfolding cls by simp
    have c3: "toLowerCase new = [] \<longrightarrow> ''language-'' @ toLowerCase new \<notin> set (dn_classList ?c')"
      unfolding cls using absent by auto
    have c4: "set (dn_classList ?p') =
                   set (dn_classList p) - {''language-'' @ toLowerCase old, ''language-none''}"
      by (simp add: set_lang_pre_classes)
    have v: "get_value ?e' = get_value e"
      by (simp add: get_value_def rendered_parts)
    have lg: "log ?e' = log e
                    @ map (\<lambda>p. PluginCall p ''attributeChanged'' [Some ''lang'', Some old, Some new]) (t_plugins t)
                    @ map (\<lambda>p. PluginCall p ''beforeHighlight'' []) (t_plugins t)
                    @ [HighlightCall f (parse_fragment (display_copy (get_value e)))
                         (t_includeCodeInputInHighlightFunc t)]
                    @ map (\<lambda>p. PluginCall p ''afterHighlight'' []) (t_plugins t)"
      by (simp add: rendered_parts render_calls_def lang_applied_def lang_classes_applied_def
            parse_display_copy get_value_def)
    have cbl: "attributeChangedCallback hl used dflt ''lang'' (Some old) (Some new) e = (None, ?e')"
      using cb lc by simp
    have tv: "textarea_value ta' = normalize_newlines (get_value e)"
      using ta'(2) by (simp add: get_value_def)
    show "\<exists>e' ta' p' c'.
               attributeChangedCallback hl used dflt ''lang'' (Some old) (Some new) e = (None, e')
               \<and> textareaElement e' = Some ta' \<and> preElement e' = Some p' \<and> codeElement e' = Some c'
               \<and> set (dn_classList c') - {''language-'' @ toLowerCase new} =
                   set (dn_classList c) - {''language-'' @ toLowerCase old, ''language-none''}
               \<and> (t_isCode t \<and> toLowerCase new \<noteq> [] \<longrightarrow>
                     ''language-'' @ toLowerCase new \<in> set (dn_classList c'))
               \<and> (toLowerCase new = [] \<longrightarrow> ''language-'' @ toLowerCase new \<notin> set (dn_classList c'))
               \<and> set (dn_classList p') =
                   set (dn_classList p) - {''language-'' @ toLowerCase old, ''language-none''}
               \<and> ta_placeholder ta' =
                   (if ta_placeholder ta = toLowerCase old then toLowerCase new else ta_placeholder ta)
               \<and> textarea_value ta' = normalize_newlines (get_value e) \<and> get_value e' = get_value e
               \<and> log e' = log e
                    @ map (\<lambda>p. PluginCall p ''attributeChanged'' [Some ''lang'', Some old, Some new]) (t_plugins t)
                    @ map (\<lambda>p. PluginCall p ''beforeHighlight'' []) (t_plugins t)
                    @ [HighlightCall f (parse_fragment (display_copy (get_value e)))
                         (t_includeCodeInputInHighlightFunc t)]
                    @ map (\<lambda>p. PluginCall p ''afterHighlight'' []) (t_plugins t)"
      apply (rule exI[of _ ?e'], rule exI[of _ ta'], rule exI[of _ ?p'], rule exI[of _ ?c'])
      apply (intro conjI)
                 apply (rule cbl)
                apply (rule ta'(1))
               apply (rule pre)
              apply (rule code)
             apply (rule c1)
            apply (rule c2)
           apply (rule c3)
          apply (rule c4)
         apply (rule pl)
        apply (rule tv)
       apply (rule v)
      apply (rule lg)
      done
  }
qed

lemma toLowerCase_PY: "toLowerCase ''PY'' = ''py''" "toLowerCase ''JS'' = ''js''" "toLowerCase ''js'' = ''js''"
  by (simp_all add: toLowerCase_def toLowerCase_char_def)

text \<open>The theorem at the example element, for the change from \<^verbatim>\<open>js\<close> to \<^verbatim>\<open>PY\<close>.\<close>

theorem lang_change_effect_witness:
  "\<exists>e' ta' c'.
     attributeChangedCallback example_highlighter Map.empty None ''lang'' (Some ''js'') (Some ''PY'') example_active
       = (None, e')
     \<and> textareaElement e' = Some ta' \<and> ta_placeholder ta' = ''py''
     \<and> codeElement e' = Some c' \<and> set (dn_classList c') = {''language-py''}"
proof -
  have w: "\<not> list_ex ascii_whitespace (toLowerCase ''js'')" "\<not> list_ex ascii_whitespace (toLowerCase ''PY'')"
    by (simp_all add: toLowerCase_PY ascii_whitespace_def)
  from lang_change_effect[OF example_active_parts example_template_parts(1) w,
      of example_highlighter Map.empty None]
  obtain e' ta' p' c' where
    r: "attributeChangedCallback example_highlighter Map.empty None ''lang'' (Some ''js'') (Some ''PY'') example_active
          = (None, e')"
      "textareaElement e' = Some ta'" "codeElement e' = Some c'"
      "set (dn_classList c') - {''language-py''} = {}"
      "''language-py'' \<in> set (dn_classList c')" "ta_placeholder ta' = ''py''"
    by (auto simp: toLowerCase_PY example_template_parts)
  from r(4,5) have "set (dn_classList c') = {''language-py''}" by auto
  with r show ?thesis by blast
qed

text \<open>
  Claim C6 as stated fails. The attribute of the example element changes from \<^verbatim>\<open>js\<close> to
  \<^verbatim>\<open>JS\<close>; the \<^verbatim>\<open>code\<close> element has the class \<^verbatim>\<open>language-js\<close>, and the handler returns
  at line 769: only the plugin hook is called, no class is removed and nothing is rendered.
  When the attribute of the element with two language classes changes from \<^verbatim>\<open>rb\<close> to
  \<^verbatim>\<open>py\<close>, the class \<^verbatim>\<open>language-rb\<close> of the old value stays. And when the attribute of
  the example element changes from \<^verbatim>\<open>js\<close> to \<^verbatim>\<open>c sharp\<close>, the class list refuses the
  token at line 783: the class of the old value is gone, no class is added and nothing is
  rendered.
\<close>

theorem lang_change_already_updated:
  "attributeChangedCallback example_highlighter Map.empty None ''lang'' (Some ''js'') (Some ''JS'') example_active
     = (None, example_active\<lparr>log := log example_active
          @ [PluginCall 7 ''attributeChanged'' [Some ''lang'', Some ''js'', Some ''JS'']]\<rparr>)
   \<and> attributeChangedCallback example_highlighter Map.empty None ''lang'' (Some ''rb'') (Some ''py'')
       example_two_languages
     = (None, example_two_languages\<lparr>log := log example_two_languages
          @ [PluginCall 7 ''attributeChanged'' [Some ''lang'', Some ''rb'', Some ''py'']]\<rparr>)
   \<and> map_option dn_classList (codeElement example_two_languages) = Some [''language-py'', ''language-rb'']
   \<and> attributeChangedCallback example_highlighter Map.empty None ''lang'' (Some ''js'') (Some ''c sharp'')
       example_active
     = (Some (InvalidCharacter ''language-c sharp''),
        example_active\<lparr>log := log example_active
          @ [PluginCall 7 ''attributeChanged'' [Some ''lang'', Some ''js'', Some ''c sharp'']],
          codeElement := Some \<lparr>dn_id = 1, dn_classList = [], dn_attributes = [],
                                cn_content = Nodes ''<span>a&lt;b</span>''\<rparr>\<rparr>)"
proof -
  have "already_updated (map_option toLowerCase (Some ''JS''))
          \<lparr>dn_id = 1, dn_classList = [''language-js''], dn_attributes = [],
           cn_content = Nodes ''<span>a&lt;b</span>''\<rparr>"
    by (simp add: already_updated_def classList_contains_def toLowerCase_PY)
  then have a: "attributeChangedCallback example_highlighter Map.empty None ''lang'' (Some ''js'') (Some ''JS'')
       example_active
     = (None, example_active\<lparr>log := log example_active
          @ [PluginCall 7 ''attributeChanged'' [Some ''lang'', Some ''js'', Some ''JS'']]\<rparr>)"
    by (simp add: attributeChanged_lang[OF example_active_parts(1,6)]
          lang_changed_already[OF _ ] example_active_parts example_template_parts)
  have parts: "isConnected example_two_languages" "template example_two_languages = Some example_template"
    "codeElement example_two_languages = Some
        \<lparr>dn_id = 1, dn_classList = [''language-py'', ''language-rb''], dn_attributes = [],
         cn_content = Nodes ''<span>a&lt;b</span>''\<rparr>"
    by (simp_all add: example_two_languages_def example_active_parts)
  have "already_updated (map_option toLowerCase (Some ''py''))
          \<lparr>dn_id = 1, dn_classList = [''language-py'', ''language-rb''], dn_attributes = [],
           cn_content = Nodes ''<span>a&lt;b</span>''\<rparr>"
    by (simp add: already_updated_def classList_contains_def toLowerCase_def toLowerCase_char_def)
  then have b: "attributeChangedCallback example_highlighter Map.empty None ''lang'' (Some ''rb'') (Some ''py'')
       example_two_languages
     = (None, example_two_languages\<lparr>log := log example_two_languages
          @ [PluginCall 7 ''attributeChanged'' [Some ''lang'', Some ''rb'', Some ''py'']]\<rparr>)"
    by (simp add: attributeChanged_lang[OF parts(1,2)] lang_changed_already[OF _ ] parts example_template_parts)
  let ?e1 = "example_active\<lparr>log := log example_active
          @ [PluginCall 7 ''attributeChanged'' [Some ''lang'', Some ''js'', Some ''c sharp'']]\<rparr>"
  have lower: "toLowerCase ''c sharp'' = ''c sharp''"
    by (simp add: toLowerCase_def toLowerCase_char_def)
  have e1: "preElement ?e1 = Some \<lparr>dn_id = 2, dn_classList = [], dn_attributes = [(''aria-hidden'', ''true'')]\<rparr>"
    "codeElement ?e1 = Some \<lparr>dn_id = 1, dn_classList = [''language-js''], dn_attributes = [],
         cn_content = Nodes ''<span>a&lt;b</span>''\<rparr>"
    by (simp_all add: example_active_parts)
  have nw: "\<not> list_ex ascii_whitespace ''js''" by (simp add: ascii_whitespace_def)
  have bad: "token_error ''language-c sharp'' = Some (InvalidCharacter ''language-c sharp'')"
    by (simp add: token_error_def ascii_whitespace_def)
  have removed: "lang_classes_applied ''js'' None ?e1 =
          ?e1\<lparr>codeElement := Some \<lparr>dn_id = 1, dn_classList = [], dn_attributes = [],
                                cn_content = Nodes ''<span>a&lt;b</span>''\<rparr>\<rparr>"
    by (simp add: lang_classes_applied_def lang_code_classes_def lang_pre_classes_def remove_token_def
          example_active_parts)
  have "lang_classes ''js'' (Some ''c sharp'') ?e1 =
          (Some (InvalidCharacter ''language-c sharp''),
           ?e1\<lparr>codeElement := Some \<lparr>dn_id = 1, dn_classList = [], dn_attributes = [],
                                cn_content = Nodes ''<span>a&lt;b</span>''\<rparr>\<rparr>)"
    unfolding lang_classes_removed[OF e1 nw] removed
    using code_add_class_invalid[OF bad] by simp
  then have "lang_changed example_highlighter (Some ''js'') (Some ''c sharp'') ?e1 =
          (Some (InvalidCharacter ''language-c sharp''),
           ?e1\<lparr>codeElement := Some \<lparr>dn_id = 1, dn_classList = [], dn_attributes = [],
                                cn_content = Nodes ''<span>a&lt;b</span>''\<rparr>\<rparr>)"
    by (simp add: lang_changed_def lower toLowerCase_PY e1 already_updated_def classList_contains_def)
  then have c: "attributeChangedCallback example_highlighter Map.empty None ''lang'' (Some ''js'') (Some ''c sharp'')
       example_active
     = (Some (InvalidCharacter ''language-c sharp''),
        example_active\<lparr>log := log example_active
          @ [PluginCall 7 ''attributeChanged'' [Some ''lang'', Some ''js'', Some ''c sharp'']],
          codeElement := Some \<lparr>dn_id = 1, dn_classList = [], dn_attributes = [],
                                cn_content = Nodes ''<span>a&lt;b</span>''\<rparr>\<rparr>)"
    by (simp add: attributeChanged_lang[OF example_active_parts(1,6)] example_template_parts)
  from a b parts(3) c show ?thesis by simp
qed

text \<open>
  Claim C7. When the attribute \<^verbatim>\<open>lang\<close> of a connected Active element is set and had no
  value before, and the \<^verbatim>\<open>code\<close> element does not have the class of the new value
  already, the handler throws at \<^verbatim>\<open>oldValue.toLowerCase()\<close>: the plugins have been
  called, nothing else has changed.
\<close>

theorem lang_first_assignment_fails:
  assumes "Active e" and "isConnected e" and "codeElement e = Some c"
    and "\<forall>n. newValue = Some n \<longrightarrow> ''language-'' @ toLowerCase n \<notin> set (dn_classList c)"
  shows "\<exists>t. template e = Some t \<and>
     attributeChangedCallback hl used dflt ''lang'' None newValue e =
       (Some (NullProperty ''toLowerCase''),
        e\<lparr>log := log e @ map (\<lambda>p. PluginCall p ''attributeChanged'' [Some ''lang'', None, newValue]) (t_plugins t)\<rparr>)"
proof -
  from assms(1) obtain t where t: "template e = Some t" by (auto simp: Active_def)
  have fresh: "\<not> already_updated (map_option toLowerCase newValue) c"
    using assms(4) by (cases newValue) (simp_all add: already_updated_def classList_contains_def)
  show ?thesis
    using t assms(3) fresh
    by (simp add: attributeChanged_lang[OF assms(2) t] lang_changed_null_old[where c = c])
qed

text \<open>The theorem at the example element, when \<^verbatim>\<open>lang\<close> is set to \<^verbatim>\<open>PY\<close>.\<close>

theorem lang_first_assignment_fails_witness:
  "attributeChangedCallback example_highlighter Map.empty None ''lang'' None (Some ''PY'') example_active =
       (Some (NullProperty ''toLowerCase''),
        example_active\<lparr>log := log example_active @ [PluginCall 7 ''attributeChanged'' [Some ''lang'', None, Some ''PY'']]\<rparr>)"
proof -
  have h: "\<forall>n. Some ''PY'' = Some n \<longrightarrow> ''language-'' @ toLowerCase n \<notin>
     set (dn_classList \<lparr>dn_id = 1, dn_classList = [''language-js''], dn_attributes = [],
                        cn_content = Nodes ''<span>a&lt;b</span>''\<rparr>)"
    by (simp add: toLowerCase_PY)
  show ?thesis
    using lang_first_assignment_fails[OF example_active_Active example_active_parts(1) example_active_parts(5) h,
        of example_highlighter Map.empty None]
    by (simp add: example_active_parts example_template_parts)
qed

lemma proto_key: "''__proto__'' \<in> set object_prototype_keys"
  by (simp add: object_prototype_keys_def)

lemma usedTemplates_get_None:
  "(usedTemplates_get w k = None) =
     (usedTemplates w k = None \<and> k \<notin> set object_prototype_keys
      \<and> (case usedTemplates_proto w of None \<Rightarrow> True | Some (t, ks) \<Rightarrow> k \<notin> set ks))"
  using proto_key by (auto simp: usedTemplates_get_def split: option.splits)

lemma attributeChanged_template_unknown:
  assumes "template e = Some t" and "isConnected e"
    and "used N = None" and "N = [] \<longrightarrow> used (key_of dflt) = None"
  shows "attributeChangedCallback hl used dflt ''template'' old (Some N) e =
       (Some (NullProperty ''preElementStyled''),
        e\<lparr>log := log e @ map (\<lambda>p. PluginCall p ''attributeChanged'' [Some ''template'', old, Some N]) (t_plugins t),
          template := None\<rparr>)"
  using assms
  by (cases "N = []")
     (simp_all add: attributeChangedCallback_def pluginEvt_Some template_changed_def or_else_def key_of_def Let_def)

lemma observed_template: "''template'' \<in> set observedAttributes"
  by (simp add: observedAttributes_def observedAttributes_source_def)

text \<open>
  Claim C10, amended. The attribute \<^verbatim>\<open>template\<close> of a connected element with a
  template is changed to a name \<open>N\<close> under which \<^verbatim>\<open>usedTemplates\<close> has nothing, neither a
  registered template nor an inherited member (and, when \<open>N\<close> is empty, so that the
  default is looked up, it has nothing under the default either). Then the handler throws
  when it reads \<^verbatim>\<open>preElementStyled\<close> of the missing template; the element is left
  without a template and the queue is as it was, whereas \<^verbatim>\<open>getTemplate\<close> in the same
  document returns nothing and puts the element in the queue of \<open>N\<close>.
\<close>

theorem template_change_unknown_fails:
  assumes "isConnected (elems w i)" and "template (elems w i) = Some t"
    and "getAttribute ''template'' (attributes (elems w i)) = Some N"
    and "usedTemplates_get w N = None"
    and "N = [] \<longrightarrow> usedTemplates_get w (key_of (defaultTemplate w)) = None"
  shows "mutationObserverCallback hl i ''template'' old w =
           (Some (NullProperty ''preElementStyled''),
            w\<lparr>elems := (elems w)(i := (elems w i)
                 \<lparr>log := log (elems w i)
                     @ map (\<lambda>p. PluginCall p ''attributeChanged'' [Some ''template'', old, Some N]) (t_plugins t),
                  template := None\<rparr>)\<rparr>)
         \<and> templateNotYetRegisteredQueue (snd (mutationObserverCallback hl i ''template'' old w))
             = templateNotYetRegisteredQueue w
         \<and> getTemplate i w =
             (None, w\<lparr>templateNotYetRegisteredQueue := (templateNotYetRegisteredQueue w)
                (N \<mapsto> (case templateNotYetRegisteredQueue w N of None \<Rightarrow> [] | Some q \<Rightarrow> q) @ [i])\<rparr>)"
proof -
  have cb: "mutationObserverCallback hl i ''template'' old w =
           (Some (NullProperty ''preElementStyled''),
            w\<lparr>elems := (elems w)(i := (elems w i)
                 \<lparr>log := log (elems w i)
                     @ map (\<lambda>p. PluginCall p ''attributeChanged'' [Some ''template'', old, Some N]) (t_plugins t),
                  template := None\<rparr>)\<rparr>)"
    using assms(3)
    by (simp add: mutationObserverCallback_def observed_template
          attributeChanged_template_unknown[OF assms(2,1,4,5)])
  have gt: "getTemplate i w =
             (None, w\<lparr>templateNotYetRegisteredQueue := (templateNotYetRegisteredQueue w)
                (N \<mapsto> (case templateNotYetRegisteredQueue w N of None \<Rightarrow> [] | Some q \<Rightarrow> q) @ [i])\<rparr>)"
    using assms(3,4) by (simp add: getTemplate_def usedTemplates_has_def key_of_def Let_def)
  show ?thesis
    using cb gt by simp
qed

text \<open>The theorem at the example document, where the attribute has become \<^verbatim>\<open>nope\<close>.\<close>

theorem template_change_unknown_fails_witness:
  "fst (mutationObserverCallback example_highlighter 0 ''template'' (Some ''demo'') example_retemplated)
     = Some (NullProperty ''preElementStyled'')
   \<and> template (elems (snd (mutationObserverCallback example_highlighter 0 ''template'' (Some ''demo'')
        example_retemplated)) 0) = None
   \<and> templateNotYetRegisteredQueue (snd (mutationObserverCallback example_highlighter 0 ''template'' (Some ''demo'')
        example_retemplated)) ''nope'' = None
   \<and> fst (getTemplate 0 example_retemplated) = None
   \<and> templateNotYetRegisteredQueue (snd (getTemplate 0 example_retemplated)) ''nope'' = Some [0]"
proof -
  have h1: "isConnected (elems example_retemplated 0)"
    and h2: "template (elems example_retemplated 0) = Some example_template"
    and h3: "getAttribute ''template'' (attributes (elems example_retemplated 0)) = Some ''nope''"
    and h4: "usedTemplates_get example_retemplated ''nope'' = None"
    and h5: "''nope'' = [] \<longrightarrow> usedTemplates_get example_retemplated (key_of (defaultTemplate example_retemplated)) = None"
    by (simp_all add: example_retemplated_def example_world_def example_active_def getAttribute_def
          usedTemplates_get_def object_prototype_keys_def)
  have q: "templateNotYetRegisteredQueue example_retemplated ''nope'' = None"
    by (simp add: example_retemplated_def example_world_def)
  show ?thesis
    using template_change_unknown_fails[OF h1 h2 h3 h4 h5, of example_highlighter "Some ''demo''"] q
    by simp
qed

lemma update_no_function:
  assumes "textareaElement e = Some ta" "codeElement e = Some c" "template e = Some t"
    and "t_highlight t = None" and "\<not> ignoreValueUpdate e"
  shows "fst (update hl v e) = Some (NotAFunction ''highlight'')"
    and "template (snd (update hl v e)) = Some t"
proof -
  let ?e0 = "e\<lparr>p_value := v, ignoreValueUpdate := False\<rparr>"
  let ?e1 = "(if textarea_value ta \<noteq> v then ?e0\<lparr>textareaElement := Some (ta\<lparr>ta_value := v\<rparr>)\<rparr> else ?e0)"
  let ?c2 = "c\<lparr>cn_content := parse_fragment (escapeHtml (if v \<noteq> [] \<and> last v = CHR 0x0A then v @ '' '' else v))\<rparr>"
  let ?e2 = "?e1\<lparr>codeElement := Some ?c2\<rparr>"
  let ?e3 = "?e2\<lparr>log := log e @ map (\<lambda>p. PluginCall p ''beforeHighlight'' []) (t_plugins t)\<rparr>"
  have p1: "pluginEvt ''beforeHighlight'' [] ?e2 = (None, ?e3)"
    using assms(3) by (simp add: pluginEvt_def)
  have h: "call_highlight hl ?e3 = (Some (NotAFunction ''highlight''), ?e3)"
    using assms(3,4) by (simp add: call_highlight_def)
  have "update hl v e = update_render hl v ?e0"
    using assms(1,5) by (simp add: update_active)
  also have "\<dots> = then_do (pluginEvt ''beforeHighlight'' [] ?e2)
              (\<lambda>e3. then_do (call_highlight hl e3) (pluginEvt ''afterHighlight'' []))"
    using assms(1,2) by (simp add: update_render_def Let_def)
  also have "\<dots> = (Some (NotAFunction ''highlight''), ?e3)"
    by (simp only: p1 then_do_simps h)
  finally have u: "update hl v e = (Some (NotAFunction ''highlight''), ?e3)" .
  show "fst (update hl v e) = Some (NotAFunction ''highlight'')" using u by simp
  show "template (snd (update hl v e)) = Some t" using u assms(3) by simp
qed

text \<open>
  Claim C10 as stated fails. The name \<^verbatim>\<open>toString\<close> was never registered, but
  \<^verbatim>\<open>usedTemplates\<close> inherits a member of that name from \<^verbatim>\<open>Object.prototype\<close>. When
  the attribute \<^verbatim>\<open>template\<close> of the example element is changed to it, the handler takes
  that member as the template, reads its \<^verbatim>\<open>preElementStyled\<close> without an error, and
  fails only in \<^verbatim>\<open>update\<close>, where it calls \<^verbatim>\<open>highlight\<close>; and \<^verbatim>\<open>getTemplate\<close> returns
  the member and puts nothing in the queue.
\<close>

theorem template_change_inherited_name:
  "usedTemplates example_inherited ''toString'' = None
   \<and> getAttribute ''template'' (attributes (elems example_inherited 0)) = Some ''toString''
   \<and> fst (mutationObserverCallback example_highlighter 0 ''template'' (Some ''demo'') example_inherited)
       = Some (NotAFunction ''highlight'')
   \<and> template (elems (snd (mutationObserverCallback example_highlighter 0 ''template'' (Some ''demo'')
        example_inherited)) 0) = Some no_fields
   \<and> getTemplate 0 example_inherited = (Some no_fields, example_inherited)"
proof -
  let ?e = "elems example_inherited 0"
  have e: "?e = example_active\<lparr>attributes := [(''lang'', ''js''), (''template'', ''toString'')]\<rparr>"
    by (simp add: example_inherited_def example_world_def)
  have a: "usedTemplates example_inherited ''toString'' = None"
    by (simp add: example_inherited_def example_world_def)
  have b: "getAttribute ''template'' (attributes ?e) = Some ''toString''"
    by (simp add: e getAttribute_def)
  have g: "usedTemplates_get example_inherited ''toString'' = Some no_fields"
  proof -
    have "''toString'' \<in> set object_prototype_keys" by (simp add: object_prototype_keys_def)
    then show ?thesis
      by (simp add: usedTemplates_get_def example_inherited_def example_world_def)
  qed
  let ?e1 = "?e\<lparr>log := log ?e @ [PluginCall 7 ''attributeChanged'' [Some ''template'', Some ''demo'', Some ''toString'']]\<rparr>"
  let ?e2 = "?e1\<lparr>template := Some no_fields,
                 classList := remove_token ''code-input_pre-element-styled'' (classList ?e1)\<rparr>"
  have parts2: "textareaElement ?e2 = textareaElement example_active" "codeElement ?e2 = codeElement example_active"
    "template ?e2 = Some no_fields" "\<not> ignoreValueUpdate ?e2"
    by (simp_all add: e example_active_parts)
  note u = update_no_function[OF parts2(1)[unfolded example_active_parts] parts2(2)[unfolded example_active_parts]
      parts2(3) _ parts2(4), of example_highlighter "get_value ?e2"]
  have nf: "t_highlight no_fields = None" "\<not> t_preElementStyled no_fields"
    by (simp_all add: no_fields_def)
  have tc: "template_changed example_highlighter (usedTemplates_get example_inherited)
              (defaultTemplate example_inherited) (Some ''toString'') ?e1
            = update example_highlighter (get_value ?e2) ?e2"
    by (simp add: template_changed_def or_else_def key_of_def g nf Let_def
          remove_class_valid[OF token_error_constant(3)])
  have cb: "attributeChangedCallback example_highlighter (usedTemplates_get example_inherited)
              (defaultTemplate example_inherited) ''template'' (Some ''demo'') (Some ''toString'') ?e
            = update example_highlighter (get_value ?e2) ?e2"
    unfolding tc[symmetric]
    by (simp add: attributeChangedCallback_def e example_active_parts pluginEvt_def example_template_parts)
  have m: "mutationObserverCallback example_highlighter 0 ''template'' (Some ''demo'') example_inherited
            = on_world 0 example_inherited (update example_highlighter (get_value ?e2) ?e2)"
    by (simp add: mutationObserverCallback_def observed_template b cb on_world_def split: prod.splits)
  have c: "fst (mutationObserverCallback example_highlighter 0 ''template'' (Some ''demo'') example_inherited)
       = Some (NotAFunction ''highlight'')"
    unfolding m using u(1)[OF nf(1)] by (simp add: on_world_def)
  have d: "template (elems (snd (mutationObserverCallback example_highlighter 0 ''template'' (Some ''demo'')
        example_inherited)) 0) = Some no_fields"
    unfolding m using u(2)[OF nf(1)] by (simp add: on_world_def)
  have gt: "getTemplate 0 example_inherited = (Some no_fields, example_inherited)"
    using b g by (simp add: getTemplate_def usedTemplates_has_def key_of_def Let_def)
  from a b c d gt show ?thesis by blast
qed

section \<open>Listeners\<close>

text \<open>
  Claim C9 at the example element: a listener for \<^verbatim>\<open>input\<close> is added and removed
  again, and its bound function is still a listener of the textarea; for \<^verbatim>\<open>change\<close> the
  same two calls leave the textarea with the listeners it had.
\<close>

theorem input_listener_not_removed:
  "fst (addEventListener ''input'' example_listener JUndefined example_active) = None
   \<and> fst (removeEventListener ''input'' example_listener JNull
            (snd (addEventListener ''input'' example_listener JUndefined example_active))) = None
   \<and> map_option ta_listeners (textareaElement (snd (removeEventListener ''input'' example_listener JNull
            (snd (addEventListener ''input'' example_listener JUndefined example_active)))))
       = Some [(''input'', InputClosure, False), (''scroll'', ScrollClosure, False),
               (''input'', Bound 0 example_listener, False)]
   \<and> map_option ta_listeners (textareaElement (snd (removeEventListener ''change'' example_listener JNull
            (snd (addEventListener ''change'' example_listener JUndefined example_active)))))
       = Some [(''input'', InputClosure, False), (''scroll'', ScrollClosure, False)]"
  by (simp add: addEventListener.simps removeEventListener_def textareaSyncEvents_def example_active_def
        dom_addEventListener_def dom_removeEventListener_def capture_of_def example_listener_def Let_def)

section \<open>Setting up\<close>

lemma add_elements_parts:
  "textareaElement (add_elements n e) = Some (new_textarea n e)"
  "preElement (add_elements n e) = Some (new_pre n)"
  "codeElement (add_elements n e) = Some (new_code n)"
  "template (add_elements n e) = template e"
  "ignoreValueUpdate (add_elements n e) = ignoreValueUpdate e"
  "listeners (add_elements n e) = listeners e"
  "log (add_elements n e) = log e"
  "attributes (add_elements n e) = attributes e"
  by (simp_all add: add_elements_def)

lemma prepared_parts:
  "textareaElement (prepared t e) = textareaElement e"
  "template (prepared t e) = template e"
  "ignoreValueUpdate (prepared t e) = ignoreValueUpdate e"
  "listeners (prepared t e) = listeners e"
  "initial_value (prepared t e) = initial_value e"
  "attributes (prepared t e) = attributes e"
  by (simp_all add: prepared_def initial_value_def)

lemma built_parts:
  "textareaElement (built n t e) = Some (new_textarea n (prepared t e))"
  "preElement (built n t e) = Some (new_pre n)"
  "codeElement (built n t e) = Some ((new_code n)\<lparr>dn_classList := language_classes t e\<rparr>)"
  "template (built n t e) = template e"
  "ignoreValueUpdate (built n t e) = ignoreValueUpdate e"
  "listeners (built n t e) = listeners e"
  by (simp_all add: built_def add_elements_parts prepared_parts)

lemma setup_elem_done: "textareaElement e \<noteq> None \<Longrightarrow> setup_elem hl n e = ((None, e), n)"
  by (simp add: setup_elem_def)

lemma setup_begin_template:
  assumes "template e = Some t"
  shows "setup_begin e = (None, prepared t e)"
  using assms
  by (simp add: setup_begin_def add_class_valid token_error_constant pluginEvt_def prepared_def)

lemma setup_begin_no_template:
  assumes "template e = None"
  shows "setup_begin e = (Some (NullProperty ''preElementStyled''),
                          e\<lparr>classList := add_token ''code-input_registered'' (classList e)\<rparr>)"
  using assms by (simp add: setup_begin_def add_class_valid token_error_constant)

lemma language_class_accepted:
  assumes "template e = Some t" and "codeElement e = Some c" and "lang_accepted t e"
  shows "language_class (getAttribute ''lang'' (attributes e)) e
           = (None, e\<lparr>codeElement := Some (c\<lparr>dn_classList :=
                 (case getAttribute ''lang'' (attributes e) of
                    None \<Rightarrow> dn_classList c
                  | Some l \<Rightarrow> if t_isCode t \<and> l \<noteq> [] then add_token (''language-'' @ l) (dn_classList c)
                              else dn_classList c)\<rparr>)\<rparr>)"
proof (cases "getAttribute ''lang'' (attributes e)")
  case None
  then show ?thesis using assms(1,2) by (simp add: language_class_def)
next
  case (Some l)
  show ?thesis
  proof (cases "t_isCode t \<and> l \<noteq> []")
    case False
    then show ?thesis using assms(1,2) Some by (auto simp: language_class_def)
  next
    case True
    with assms(3) Some have "\<not> list_ex ascii_whitespace l" by (simp add: lang_accepted_def)
    from code_add_class_valid[OF token_error_language[OF this] assms(2)] True Some assms(1)
    show ?thesis by (simp add: language_class_def)
  qed
qed

lemma language_class_refused:
  assumes "template e = Some t" and "codeElement e = Some c" and "\<not> lang_accepted t e"
  shows "\<exists>l. getAttribute ''lang'' (attributes e) = Some l
            \<and> language_class (getAttribute ''lang'' (attributes e)) e
                = (Some (InvalidCharacter (''language-'' @ l)), e)"
proof -
  from assms(3) obtain l where l: "getAttribute ''lang'' (attributes e) = Some l" "t_isCode t"
      "list_ex ascii_whitespace l"
    by (auto simp: lang_accepted_def split: option.splits)
  then have "l \<noteq> []" by auto
  with l assms(1) code_add_class_invalid[OF token_error_whitespace[OF l(3)] assms(2)]
  show ?thesis by (simp add: language_class_def)
qed

lemma setup_finish_accepted:
  assumes "template e = Some t" and "lang_accepted t e"
  shows "setup_finish hl (getAttribute ''lang'' (attributes e)) v (add_elements n (prepared t e))
           = then_do (update hl v (built n t e)) (\<lambda>e3. (None, dispatchEvent hl ''code-input_load'' e3))"
proof -
  let ?e6 = "add_elements n (prepared t e)"
  have a6: "attributes ?e6 = attributes e"
    by (simp add: add_elements_parts prepared_parts)
  have t6: "template ?e6 = Some t"
    using assms(1) by (simp add: add_elements_parts prepared_parts)
  have acc: "lang_accepted t ?e6"
    using assms(2) by (simp add: lang_accepted_def a6)
  have cl: "(case getAttribute ''lang'' (attributes e) of
               None \<Rightarrow> dn_classList (new_code n)
             | Some l \<Rightarrow> if t_isCode t \<and> l \<noteq> [] then add_token (''language-'' @ l) (dn_classList (new_code n))
                         else dn_classList (new_code n))
            = language_classes t e"
    by (simp add: language_classes_def new_code_def add_token_def split: option.splits)
  have lc: "language_class (getAttribute ''lang'' (attributes e)) ?e6
              = (None, ?e6\<lparr>codeElement := Some ((new_code n)\<lparr>dn_classList := language_classes t e\<rparr>)\<rparr>)"
    using language_class_accepted[OF t6 add_elements_parts(3) acc] unfolding a6 cl .
  have pe: "pluginEvt ''afterElementsAdded'' []
              (?e6\<lparr>codeElement := Some ((new_code n)\<lparr>dn_classList := language_classes t e\<rparr>)\<rparr>)
            = (None, built n t e)"
    using assms(1) by (simp add: pluginEvt_def built_def add_elements_parts prepared_parts)
  show ?thesis
    unfolding setup_finish_def lc then_do_simps pe ..
qed

lemma setup_elem_unfold:
  assumes "textareaElement e = None" and "template e = Some t" and "lang_accepted t e"
  shows "setup_elem hl n e =
          (then_do (update hl (initial_value e) (built n t e))
             (\<lambda>e3. (None, dispatchEvent hl ''code-input_load'' e3)), n + 3)"
  using assms(1)
  by (simp add: setup_elem_def setup_begin_template[OF assms(2)] prepared_parts
        setup_finish_accepted[OF assms(2,3)])

lemma setup_elem_refused:
  assumes "textareaElement e = None" and "template e = Some t" and "\<not> lang_accepted t e"
  shows "\<exists>l. getAttribute ''lang'' (attributes e) = Some l
            \<and> setup_elem hl n e
                = ((Some (InvalidCharacter (''language-'' @ l)), add_elements n (prepared t e)), n + 3)"
proof -
  let ?e6 = "add_elements n (prepared t e)"
  have "\<not> lang_accepted t ?e6"
    using assms(3) by (simp add: lang_accepted_def add_elements_parts prepared_parts)
  from language_class_refused[where t = t and c = "new_code n", OF _ add_elements_parts(3) this]
  obtain l where l: "getAttribute ''lang'' (attributes e) = Some l"
    "language_class (getAttribute ''lang'' (attributes e)) ?e6 = (Some (InvalidCharacter (''language-'' @ l)), ?e6)"
    using assms(2) by (auto simp: add_elements_parts prepared_parts)
  show ?thesis
    using assms(1) l
    by (simp add: setup_elem_def setup_begin_template[OF assms(2)] prepared_parts setup_finish_def)
qed

lemma setup_elem_no_template:
  assumes "textareaElement e = None" and "template e = None"
  shows "setup_elem hl n e = ((Some (NullProperty ''preElementStyled''),
                               e\<lparr>classList := add_token ''code-input_registered'' (classList e)\<rparr>), n)"
  using assms by (simp add: setup_elem_def setup_begin_no_template)

lemma setup_elem_fresh:
  assumes "textareaElement e = None" and "template e = Some t" and "lang_accepted t e"
    and "t_highlight t = Some f" and "\<not> ignoreValueUpdate e"
  shows "setup_elem hl n e =
          ((None, dispatchEvent hl ''code-input_load'' (rendered hl f t (initial_value e) (built n t e))), n + 3)"
proof -
  have "update hl (initial_value e) (built n t e) = (None, rendered hl f t (initial_value e) (built n t e))"
    by (rule update_Active[where ta = "new_textarea n (prepared t e)"
          and c = "(new_code n)\<lparr>dn_classList := language_classes t e\<rparr>"])
       (simp_all add: built_parts assms)
  then show ?thesis by (simp add: setup_elem_unfold[OF assms(1,2,3)])
qed

section \<open>The nodes of an element\<close>

lemma surfaces_then_do:
  assumes "\<And>e. surfaces (snd (f e)) = surfaces e"
  shows "surfaces (snd (then_do r f)) = surfaces (snd r)"
proof (cases r)
  case (Pair x e)
  then show ?thesis using assms by (cases x) simp_all
qed

lemma surfaces_fields:
  "surfaces (e\<lparr>log := l\<rparr>) = surfaces e"
  "surfaces (e\<lparr>classList := cl\<rparr>) = surfaces e"
  "surfaces (e\<lparr>template := t\<rparr>) = surfaces e"
  "surfaces (e\<lparr>isConnected := b\<rparr>) = surfaces e"
  "surfaces (e\<lparr>attributes := a\<rparr>) = surfaces e"
  "surfaces (e\<lparr>observers := os\<rparr>) = surfaces e"
  "surfaces (e\<lparr>p_value := v\<rparr>) = surfaces e"
  "surfaces (e\<lparr>ignoreValueUpdate := b\<rparr>) = surfaces e"
  by (simp_all add: surfaces_def)

lemma surfaces_class_ops:
  "surfaces (snd (add_class tok e)) = surfaces e"
  "surfaces (snd (remove_class tok e)) = surfaces e"
  "surfaces (snd (code_add_class tok e)) = surfaces e"
  "surfaces (snd (code_remove_class tok e)) = surfaces e"
  "surfaces (snd (pre_remove_class tok e)) = surfaces e"
  by (simp_all add: add_class_def remove_class_def code_add_class_def code_remove_class_def
        pre_remove_class_def surfaces_def split: sum.splits option.splits)

lemma surfaces_pluginEvt: "surfaces (snd (pluginEvt name args e)) = surfaces e"
  by (simp add: pluginEvt_def surfaces_def split: option.splits)

lemma surfaces_observe: "surfaces (observe e) = surfaces e"
  by (simp add: observe_def surfaces_def)

lemma surfaces_disconnectedCallback: "surfaces (snd (disconnectedCallback e)) = surfaces e"
  by (simp add: disconnectedCallback_def surfaces_def split: option.splits)

lemma surfaces_addEventListener: "surfaces (snd (addEventListener ty l opts e)) = surfaces e"
proof (cases "ty \<in> set textareaSyncEvents")
  case False
  then show ?thesis by (simp add: addEventListener.simps surfaces_def Let_def)
next
  case True
  have load: "''code-input_load'' \<notin> set textareaSyncEvents" by (simp add: textareaSyncEvents_def)
  show ?thesis
    using True load
    by (subst addEventListener.simps)
       (simp add: Let_def surfaces_def addEventListener.simps[of "''code-input_load''"] split: option.splits)
qed

lemma surfaces_removeEventListener: "surfaces (snd (removeEventListener ty l opts e)) = surfaces e"
  by (simp add: removeEventListener_def surfaces_def Let_def split: option.splits)

lemma surfaces_call_highlight: "surfaces (snd (call_highlight hl e)) = surfaces e"
  by (simp add: call_highlight_def surfaces_def Let_def split: option.splits)

lemma surfaces_highlight_hooks:
  "surfaces (snd (then_do (call_highlight hl e) (pluginEvt ''afterHighlight'' []))) = surfaces e"
  by (simp add: surfaces_then_do surfaces_pluginEvt surfaces_call_highlight)

lemma surfaces_update_render: "surfaces (snd (update_render hl v e)) = surfaces e"
proof (cases "textareaElement e")
  case None
  then show ?thesis by (simp add: update_render_def)
next
  case (Some ta)
  let ?e1 = "(if textarea_value ta \<noteq> v then e\<lparr>textareaElement := Some (ta\<lparr>ta_value := v\<rparr>)\<rparr> else e)"
  have s1: "surfaces ?e1 = surfaces e" using Some by (simp add: surfaces_def)
  show ?thesis
  proof (cases "codeElement ?e1")
    case None
    then show ?thesis using Some s1 by (simp add: update_render_def Let_def)
  next
    case c: (Some c)
    let ?e2 = "?e1\<lparr>codeElement := Some (c\<lparr>cn_content := parse_fragment
                  (escapeHtml (if v \<noteq> [] \<and> last v = CHR 0x0A then v @ '' '' else v))\<rparr>)\<rparr>"
    have s2: "surfaces ?e2 = surfaces e"
      using s1 c by (simp add: surfaces_def)
    have "update_render hl v e = then_do (pluginEvt ''beforeHighlight'' [] ?e2)
              (\<lambda>e3. then_do (call_highlight hl e3) (pluginEvt ''afterHighlight'' []))"
      using Some c by (simp add: update_render_def Let_def)
    then show ?thesis
      by (simp add: surfaces_then_do surfaces_highlight_hooks surfaces_pluginEvt s2)
  qed
qed

lemma surfaces_update: "surfaces (snd (update hl v e)) = surfaces e"
proof (cases "ignoreValueUpdate e")
  case True
  then show ?thesis by (simp add: update_ignored)
next
  case False
  show ?thesis
  proof (cases "textareaElement e")
    case None
    with False show ?thesis by (simp add: update_pending surfaces_def)
  next
    case (Some ta)
    with False have "update hl v e = update_render hl v (e\<lparr>p_value := v, ignoreValueUpdate := False\<rparr>)"
      by (simp add: update_active)
    then show ?thesis by (simp add: surfaces_update_render) (simp add: surfaces_def)
  qed
qed

lemma surfaces_set_value: "surfaces (snd (set_value hl val e)) = surfaces e"
  by (simp add: set_value.simps surfaces_update Let_def surfaces_fields)

lemma surfaces_lang_classes: "surfaces (snd (lang_classes old new e)) = surfaces e"
proof -
  have last: "\<And>e4. surfaces (snd (case new of None \<Rightarrow> (None, e4)
                    | Some n \<Rightarrow> if n \<noteq> [] then code_add_class (''language-'' @ n) e4 else (None, e4)))
                 = surfaces e4"
    by (simp add: surfaces_class_ops split: option.splits)
  show ?thesis
    unfolding lang_classes_def
    by (simp add: surfaces_then_do surfaces_class_ops last)
qed

lemma surfaces_lang_placeholder: "surfaces (snd (lang_placeholder hl old new e)) = surfaces e"
  by (cases "textareaElement e")
     (simp_all add: lang_placeholder_def surfaces_update, simp add: surfaces_def)

lemma surfaces_lang_changed: "surfaces (snd (lang_changed hl old new e)) = surfaces e"
  by (simp add: lang_changed_def Let_def surfaces_then_do surfaces_lang_placeholder surfaces_lang_classes
        split: option.splits)

lemma surfaces_template_changed: "surfaces (snd (template_changed hl used dflt new e)) = surfaces e"
proof -
  let ?e1 = "e\<lparr>template := used (key_of (or_else new dflt))\<rparr>"
  have u: "\<And>e2. surfaces (snd (update hl (get_value e2) e2)) = surfaces e2"
    by (rule surfaces_update)
  show ?thesis
  proof (cases "template ?e1")
    case None
    then show ?thesis by (simp add: template_changed_def Let_def surfaces_fields)
  next
    case (Some t)
    then have "template_changed hl used dflt new e =
        then_do (if t_preElementStyled t
                 then add_class ''code-input_pre-element-styled'' ?e1
                 else remove_class ''code-input_pre-element-styled'' ?e1)
          (\<lambda>e2. update hl (get_value e2) e2)"
      by (simp add: template_changed_def Let_def)
    then show ?thesis
      by (simp add: surfaces_then_do[where f = "\<lambda>e2. update hl (get_value e2) e2", OF u]
            surfaces_class_ops surfaces_fields)
  qed
qed

lemma surfaces_sync_attribute: "surfaces (snd (sync_attribute name new e)) = surfaces e"
  by (auto simp: sync_attribute_def surfaces_def split: option.splits)

lemma surfaces_placeholder:
  "surfaces (snd (case textareaElement e of
       None \<Rightarrow> (Some (NullProperty ''placeholder''), e)
     | Some ta \<Rightarrow> (None, e\<lparr>textareaElement := Some (ta\<lparr>ta_placeholder := v\<rparr>)\<rparr>))) = surfaces e"
  by (cases "textareaElement e") (simp_all add: surfaces_def)

lemma surfaces_attributeChangedCallback:
  "surfaces (snd (attributeChangedCallback hl used dflt name old new e)) = surfaces e"
proof (cases "isConnected e")
  case False
  then show ?thesis by (simp add: attributeChangedCallback_def)
next
  case c: True
  show ?thesis
  proof (cases "template e")
    case None
    with c show ?thesis by (simp add: attributeChangedCallback_def pluginEvt_def)
  next
    case (Some t)
    let ?e1 = "e\<lparr>log := log e @ map (\<lambda>p. PluginCall p ''attributeChanged'' [Some name, old, new]) (t_plugins t)\<rparr>"
    have cb: "attributeChangedCallback hl used dflt name old new e =
       (if name = ''value'' then set_value hl new ?e1
        else if name = ''placeholder'' then
               (case textareaElement ?e1 of
                  None \<Rightarrow> (Some (NullProperty ''placeholder''), ?e1)
                | Some ta \<Rightarrow> (None, ?e1\<lparr>textareaElement := Some (ta\<lparr>ta_placeholder := dom_string new\<rparr>)\<rparr>))
        else if name = ''template'' then template_changed hl used dflt new ?e1
        else if name = ''lang'' then lang_changed hl old new ?e1
        else sync_attribute name new ?e1)"
      using c by (simp add: attributeChangedCallback_def pluginEvt_Some[OF Some])
    show ?thesis
      unfolding cb
      by (simp only: if_distrib[of snd] if_distrib[of surfaces] surfaces_set_value surfaces_placeholder
            surfaces_template_changed surfaces_lang_changed surfaces_sync_attribute surfaces_fields if_cancel)
  qed
qed

lemma surfaces_call_fn: "surfaces (snd (call_fn hl ty f e)) = surfaces e"
  by (induction f) (auto simp: surfaces_update split: option.splits, auto simp: surfaces_def)

lemma surfaces_dispatch_list: "surfaces (dispatch_list hl ty ls e) = surfaces e"
  by (induction ls arbitrary: e) (simp_all add: surfaces_call_fn)

lemma surfaces_dispatchEvent: "surfaces (dispatchEvent hl ty e) = surfaces e"
  by (simp add: dispatchEvent_def surfaces_dispatch_list)

lemma surfaces_textarea_input: "surfaces (snd (textarea_input hl v e)) = surfaces e"
  by (cases "textareaElement e")
     (simp_all add: textarea_input_def surfaces_dispatch_list, simp add: surfaces_def)

lemma surfaces_language_class: "surfaces (snd (language_class lang e)) = surfaces e"
  by (simp add: language_class_def surfaces_class_ops split: option.splits)

lemma surfaces_setup_finish: "surfaces (snd (setup_finish hl lang v e)) = surfaces e"
proof -
  have a: "\<And>e2. surfaces (snd (then_do (update hl v e2) (\<lambda>e3. (None, dispatchEvent hl ''code-input_load'' e3))))
             = surfaces e2"
    by (simp add: surfaces_then_do surfaces_dispatchEvent surfaces_update)
  have b: "\<And>e1. surfaces (snd (then_do (pluginEvt ''afterElementsAdded'' [] e1)
             (\<lambda>e2. then_do (update hl v e2) (\<lambda>e3. (None, dispatchEvent hl ''code-input_load'' e3)))))
             = surfaces e1"
    by (simp add: surfaces_then_do a surfaces_pluginEvt)
  show ?thesis
    unfolding setup_finish_def by (simp add: surfaces_then_do b surfaces_language_class)
qed

lemma has_surfaces_alt:
  "has_surfaces e =
     (fst (surfaces e) \<noteq> None \<and> fst (snd (surfaces e)) \<noteq> None \<and> snd (snd (surfaces e)) \<noteq> None)"
  by (simp add: has_surfaces_def surfaces_def)

lemma has_surfaces_surfaces: "surfaces e' = surfaces e \<Longrightarrow> has_surfaces e' = has_surfaces e"
  by (simp add: has_surfaces_alt)

lemma has_surfaces_add_elements: "has_surfaces (add_elements n e)"
  by (simp add: has_surfaces_def add_elements_parts)

lemma setup_elem_cases:
  "(textareaElement e \<noteq> None \<and> setup_elem hl n e = ((None, e), n))
   \<or> (textareaElement e = None \<and> snd (setup_elem hl n e) = n
        \<and> textareaElement (snd (fst (setup_elem hl n e))) = None
        \<and> attributes (snd (fst (setup_elem hl n e))) = attributes e
        \<and> fst (fst (setup_elem hl n e)) \<noteq> None)
   \<or> (textareaElement e = None \<and> snd (setup_elem hl n e) = n + 3
        \<and> has_surfaces (snd (fst (setup_elem hl n e))))"
proof (cases "textareaElement e")
  case (Some ta)
  then show ?thesis by (simp add: setup_elem_done)
next
  case None
  show ?thesis
  proof (cases "template e")
    case noT: None
    show ?thesis
      using None by (simp add: setup_elem_no_template[OF None noT])
  next
    case (Some t)
    let ?r = "setup_finish hl (getAttribute ''lang'' (attributes (prepared t e))) (initial_value (prepared t e))
                (add_elements n (prepared t e))"
    have s: "setup_elem hl n e = (?r, n + 3)"
      using None by (simp add: setup_elem_def setup_begin_template[OF Some])
    have "has_surfaces (snd ?r)"
      using has_surfaces_surfaces[OF surfaces_setup_finish] has_surfaces_add_elements by blast
    with s None show ?thesis by simp
  qed
qed

lemma setup_makes_all:
  "snd (setup_elem hl n e) \<noteq> n \<longrightarrow>
     snd (setup_elem hl n e) = n + 3 \<and> has_surfaces (snd (fst (setup_elem hl n e)))"
  using setup_elem_cases[of e hl n] by auto

lemma same_nodes_refl: "same_nodes e e"
  by (simp add: same_nodes_def)

lemma same_nodes_surfaces: "surfaces e' = surfaces e \<Longrightarrow> same_nodes e e'"
  by (simp add: same_nodes_def)

lemma same_nodes_trans: "same_nodes e e' \<Longrightarrow> same_nodes e' e'' \<Longrightarrow> same_nodes e e''"
  by (auto simp: same_nodes_def surfaces_def)

lemma same_then_world:
  assumes "same_nodes (elems w k) (elems (snd r) k)"
    and "\<And>w'. same_nodes (elems w' k) (elems (snd (g w')) k)"
  shows "same_nodes (elems w k) (elems (snd (then_world r g)) k)"
proof (cases r)
  case (Pair x w1)
  show ?thesis
  proof (cases x)
    case None
    with Pair assms(1) same_nodes_trans[OF _ assms(2)[of w1]] show ?thesis by simp
  next
    case (Some y)
    with Pair assms(1) show ?thesis by simp
  qed
qed

lemma getTemplate_elems: "elems (snd (getTemplate i w)) = elems w"
  by (simp add: getTemplate_def Let_def)

lemma setup_elem_same: "same_nodes e (snd (fst (setup_elem hl n e)))"
  by (cases "textareaElement e") (simp_all add: same_nodes_def setup_elem_done)

lemma on_world_elems:
  "elems (snd (on_world i w r)) = (elems w)(i := snd r)"
  "fst (on_world i w r) = fst r"
  by (simp_all add: on_world_def)

lemma run_setup_elem:
  "elems (snd (run_setup hl i w)) =
     (elems w)(i := snd (then_do (fst (setup_elem hl (nodes_created w) (elems w i))) (add_class ''code-input_loaded'')))"
  by (simp add: run_setup_def on_world_def split: prod.splits)

lemma run_setup_same: "same_nodes (elems w k) (elems (snd (run_setup hl i w)) k)"
proof (cases "k = i")
  case False
  then show ?thesis by (simp add: run_setup_elem same_nodes_refl)
next
  case True
  have "surfaces (snd (then_do (fst (setup_elem hl (nodes_created w) (elems w i))) (add_class ''code-input_loaded'')))
          = surfaces (snd (fst (setup_elem hl (nodes_created w) (elems w i))))"
    by (simp add: surfaces_then_do surfaces_class_ops)
  then have "same_nodes (snd (fst (setup_elem hl (nodes_created w) (elems w i))))
               (snd (then_do (fst (setup_elem hl (nodes_created w) (elems w i))) (add_class ''code-input_loaded'')))"
    by (rule same_nodes_surfaces)
  from same_nodes_trans[OF setup_elem_same this] True show ?thesis
    by (simp add: run_setup_elem)
qed

lemma runOnce_same:
  assumes "\<And>w'. same_nodes (elems w' k) (elems (snd (run w')) k)"
  shows "same_nodes (elems w k) (elems (snd (runOnceWindowLoaded run cb w)) k)"
  using assms by (simp add: runOnceWindowLoaded_def same_nodes_refl)

lemma observe_same: "same_nodes (elems w k) (elems (w\<lparr>elems := (elems w)(i := observe (elems w i))\<rparr>) k)"
  by (simp add: same_nodes_refl same_nodes_surfaces surfaces_observe)

lemma connectedCallback_same: "same_nodes (elems w k) (elems (snd (connectedCallback hl i w)) k)"
proof -
  obtain t w1 where g: "getTemplate i w = (t, w1)" by (metis surj_pair)
  then have el: "elems w1 = elems w" using getTemplate_elems[of i w] by simp
  let ?w2 = "w1\<lparr>elems := (elems w1)(i := (elems w1 i)\<lparr>template := t\<rparr>)\<rparr>"
  have s2: "same_nodes (elems w k) (elems ?w2 k)"
    by (simp add: el same_nodes_refl same_nodes_surfaces surfaces_fields)
  let ?r = "(if t \<noteq> None then
                   then_world (on_world i ?w2 (add_class ''code-input_registered'' (elems ?w2 i)))
                     (runOnceWindowLoaded (run_setup hl i) (SetupCb i))
                 else (None, ?w2))"
  have s3: "same_nodes (elems ?w2 k) (elems (snd (on_world i ?w2 (add_class ''code-input_registered'' (elems ?w2 i)))) k)"
    by (simp add: on_world_elems same_nodes_refl same_nodes_surfaces surfaces_class_ops)
  have s4: "same_nodes (elems ?w2 k) (elems (snd ?r) k)"
  proof (cases "t = None")
    case True
    then show ?thesis by (simp add: same_nodes_refl)
  next
    case False
    have "same_nodes (elems ?w2 k)
            (elems (snd (then_world (on_world i ?w2 (add_class ''code-input_registered'' (elems ?w2 i)))
                     (runOnceWindowLoaded (run_setup hl i) (SetupCb i)))) k)"
      by (rule same_then_world[OF s3]) (rule runOnce_same, rule run_setup_same)
    with False show ?thesis by simp
  qed
  have "same_nodes (elems ?w2 k)
          (elems (snd (then_world ?r (\<lambda>w4. (None, w4\<lparr>elems := (elems w4)(i := observe (elems w4 i))\<rparr>)))) k)"
    by (rule same_then_world[OF s4]) (simp add: same_nodes_refl same_nodes_surfaces surfaces_observe)
  from same_nodes_trans[OF s2 this] show ?thesis
    using g by (simp add: connectedCallback_def Let_def)
qed

lemma flush_queue_same: "same_nodes (elems w k) (elems (snd (flush_queue hl t q w)) k)"
proof (induction q arbitrary: w)
  case Nil
  then show ?case by (simp add: same_nodes_refl)
next
  case (Cons i q)
  let ?w1 = "w\<lparr>elems := (elems w)(i := (elems w i)\<lparr>template := Some t\<rparr>)\<rparr>"
  have s1: "same_nodes (elems w k) (elems ?w1 k)"
    by (simp add: same_nodes_refl same_nodes_surfaces surfaces_fields)
  have s2: "same_nodes (elems ?w1 k)
              (elems (snd (runOnceWindowLoaded (connectedCallback hl i) (ConnectedCb i) ?w1)) k)"
    by (rule runOnce_same) (rule connectedCallback_same)
  have "same_nodes (elems ?w1 k)
          (elems (snd (then_world (runOnceWindowLoaded (connectedCallback hl i) (ConnectedCb i) ?w1)
                        (flush_queue hl t q))) k)"
    by (rule same_then_world[OF s2]) (rule Cons.IH)
  from same_nodes_trans[OF s1 this] show ?case by simp
qed

lemma flush_key_same: "same_nodes (elems w k) (elems (snd (flush_key hl t n w)) k)"
  by (simp add: flush_key_def flush_queue_same same_nodes_refl split: option.splits)

lemma usedTemplates_set_elems: "elems (usedTemplates_set n t ks w) = elems w"
  by (simp add: usedTemplates_set_def)

lemma store_template_same: "same_nodes (elems w k) (elems (snd (store_template hl n d w)) k)"
proof -
  let ?w1 = "usedTemplates_set n (to_template d) (property_names d) w"
  have s1: "same_nodes (elems ?w1 k) (elems (snd (flush_key hl (to_template d) n ?w1)) k)"
    by (rule flush_key_same)
  have s2: "\<And>w2. same_nodes (elems w2 k)
           (elems (snd (if defaultTemplate w2 = None
              then flush_key hl (to_template d) (key_of None) (w2\<lparr>defaultTemplate := Some n\<rparr>)
              else (None, w2))) k)"
    using flush_key_same[of "_\<lparr>defaultTemplate := Some n\<rparr>" k hl "to_template d" "key_of None"]
    by (simp add: same_nodes_refl)
  have "same_nodes (elems ?w1 k) (elems (snd (store_template hl n d w)) k)"
    unfolding store_template_def by (rule same_then_world[OF s1 s2])
  then show ?thesis by (simp add: usedTemplates_set_elems)
qed

lemma registerTemplate_same: "same_nodes (elems w k) (elems (snd (registerTemplate hl name d w)) k)"
  by (auto simp: registerTemplate_def store_template_same same_nodes_refl split: jsval.splits option.splits)

lemma mutationObserverCallback_same:
  "same_nodes (elems w k) (elems (snd (mutationObserverCallback hl i name old w)) k)"
proof -
  have "same_nodes (elems w i)
          (snd (attributeChangedCallback hl (usedTemplates_get w) (defaultTemplate w) name old
                 (getAttribute name (attributes (elems w i))) (elems w i)))"
    by (rule same_nodes_surfaces) (rule surfaces_attributeChangedCallback)
  then show ?thesis
    by (auto simp: mutationObserverCallback_def same_nodes_refl split: prod.splits)
qed

lemma run_cb_same: "same_nodes (elems w k) (elems (snd (run_cb hl cb w)) k)"
  by (cases cb) (simp_all add: run_cb_def connectedCallback_same run_setup_same)

lemma run_load_listeners_same: "same_nodes (elems w k) (elems (run_load_listeners hl cbs w) k)"
proof (induction cbs arbitrary: w)
  case Nil
  then show ?case by (simp add: same_nodes_refl)
next
  case (Cons cb cbs)
  show ?case
    using same_nodes_trans[OF run_cb_same[of w k hl cb] Cons.IH[of "snd (run_cb hl cb w)"]] by simp
qed

lemma window_load_same: "same_nodes (elems w k) (elems (window_load hl w) k)"
  using run_load_listeners_same[of "w\<lparr>windowLoaded := True\<rparr>" k hl "load_listeners w"]
  by (simp add: window_load_def)

lemma connect_same: "same_nodes (elems w k) (elems (snd (connect hl i w)) k)"
proof -
  let ?w1 = "w\<lparr>elems := (elems w)(i := (elems w i)\<lparr>isConnected := True\<rparr>)\<rparr>"
  have "same_nodes (elems w k) (elems ?w1 k)"
    by (simp add: same_nodes_refl same_nodes_surfaces surfaces_fields)
  from same_nodes_trans[OF this connectedCallback_same[of ?w1 k hl i]] show ?thesis
    by (simp add: connect_def)
qed

lemma disconnect_same: "same_nodes (elems w k) (elems (disconnect i w) k)"
  by (simp add: disconnect_def same_nodes_refl same_nodes_surfaces surfaces_disconnectedCallback surfaces_fields)

lemma fold_observers_same:
  "same_nodes (elems w k)
     (elems (fold (\<lambda>j w'. snd (mutationObserverCallback hl i name old w')) os w) k)"
proof (induction os arbitrary: w)
  case Nil
  then show ?case by (simp add: same_nodes_refl)
next
  case (Cons j os)
  show ?case
    using same_nodes_trans[OF mutationObserverCallback_same[of w k hl i name old]
        Cons.IH[of "snd (mutationObserverCallback hl i name old w)"]] by simp
qed

lemma change_attribute_same: "same_nodes (elems w k) (elems (change_attribute hl i name v w) k)"
proof -
  let ?w1 = "w\<lparr>elems := (elems w)(i := (elems w i)\<lparr>attributes :=
                  (case v of
                     None \<Rightarrow> removeAttribute name (attributes (elems w i))
                   | Some x \<Rightarrow> setAttribute name x (attributes (elems w i)))\<rparr>)\<rparr>"
  have s1: "same_nodes (elems w k) (elems ?w1 k)"
    by (simp add: same_nodes_refl same_nodes_surfaces surfaces_fields)
  have s2: "same_nodes (elems w k)
              (elems (fold (\<lambda>j w'. snd (mutationObserverCallback hl i name
                         (getAttribute name (attributes (elems w i))) w')) (observers (elems w i)) ?w1) k)"
    by (rule same_nodes_trans[OF s1 fold_observers_same])
  show ?thesis
  proof (cases "v = None \<and> getAttribute name (attributes (elems w i)) = None")
    case True
    then have "change_attribute hl i name v w = ?w1"
      by (simp add: change_attribute_def Let_def)
    with s1 show ?thesis by simp
  next
    case False
    then have "change_attribute hl i name v w =
                 fold (\<lambda>j w'. snd (mutationObserverCallback hl i name
                         (getAttribute name (attributes (elems w i))) w')) (observers (elems w i)) ?w1"
      unfolding change_attribute_def Let_def by (simp only: if_False)
    with s2 show ?thesis by simp
  qed
qed

lemma on_elem_same:
  assumes "\<And>e. surfaces (snd (f e)) = surfaces e"
  shows "same_nodes (elems w k) (elems (on_elem i f w) k)"
  by (simp add: on_elem_def same_nodes_refl same_nodes_surfaces assms)

lemma call_setup_same: "same_nodes (elems w k) (elems (call_setup hl i w) k)"
proof -
  obtain r e' n' where s: "setup_elem hl (nodes_created w) (elems w i) = ((r, e'), n')"
    by (metis surj_pair)
  have "same_nodes (elems w i) e'"
    using setup_elem_same[of "elems w i" hl "nodes_created w"] s by simp
  with s show ?thesis by (simp add: call_setup_def same_nodes_refl)
qed

lemma perform_same: "same_nodes (elems w k) (elems (perform hl a w) k)"
  by (cases a)
     (simp_all add: perform_def registerTemplate_same connect_same disconnect_same window_load_same
        change_attribute_same on_elem_same surfaces_update surfaces_set_value surfaces_addEventListener
        surfaces_removeEventListener call_setup_same connectedCallback_same surfaces_textarea_input)

lemma fold_perform_same: "same_nodes (elems w k) (elems (fold (perform hl) acts w) k)"
proof (induction acts arbitrary: w)
  case Nil
  then show ?case by (simp add: same_nodes_refl)
next
  case (Cons a acts)
  show ?case
    using same_nodes_trans[OF perform_same[of w k hl a] Cons.IH[of "perform hl a w"]] by simp
qed

lemma same_nodes_has_surfaces: "same_nodes e e' \<Longrightarrow> has_surfaces e \<Longrightarrow> has_surfaces e'"
  using has_surfaces_surfaces[of e' e] by (auto simp: same_nodes_def has_surfaces_def)

lemma run_setup_done:
  "textareaElement (elems w i) \<noteq> None \<Longrightarrow> nodes_created (snd (run_setup hl i w)) = nodes_created w"
  by (simp add: run_setup_def setup_elem_done on_world_def)

text \<open>
  Claim C5. A call of \<^verbatim>\<open>setup\<close> that makes nodes makes the three of them and leaves the
  element with its textarea, its \<^verbatim>\<open>pre\<close> and its \<^verbatim>\<open>code\<close> element. Once an element has
  its textarea, a further call of \<^verbatim>\<open>setup\<close> returns the element as it is and makes no
  node, whether it is called directly, from the callback of \<^verbatim>\<open>connectedCallback\<close> or from
  a flush of the queue; and whatever happens to the document afterwards, the textarea, the
  \<^verbatim>\<open>pre\<close> and the \<^verbatim>\<open>code\<close> element of the element remain the nodes they are.
\<close>

theorem surfaces_created_once:
  assumes "textareaElement (elems w i) \<noteq> None"
  shows "(snd (setup_elem hl m e) \<noteq> m \<longrightarrow>
            snd (setup_elem hl m e) = m + 3 \<and> has_surfaces (snd (fst (setup_elem hl m e))))
         \<and> setup_elem hl n (elems w i) = ((None, elems w i), n)
         \<and> nodes_created (snd (run_setup hl i w)) = nodes_created w
         \<and> surfaces (elems (snd (run_setup hl i w)) i) = surfaces (elems w i)
         \<and> surfaces (elems (snd (connectedCallback hl i w)) i) = surfaces (elems w i)
         \<and> surfaces (elems (fold (perform hl) acts w) i) = surfaces (elems w i)
         \<and> textareaElement (elems (fold (perform hl) acts w) i) \<noteq> None"
proof -
  have a: "surfaces (elems (fold (perform hl) acts w) i) = surfaces (elems w i)"
    using fold_perform_same[of w i hl acts] assms by (simp add: same_nodes_def)
  then have "map_option ta_id (textareaElement (elems (fold (perform hl) acts w) i))
               = map_option ta_id (textareaElement (elems w i))"
    by (simp add: surfaces_def)
  with assms have b: "textareaElement (elems (fold (perform hl) acts w) i) \<noteq> None"
    by (cases "textareaElement (elems (fold (perform hl) acts w) i)") auto
  have c: "surfaces (elems (snd (run_setup hl i w)) i) = surfaces (elems w i)"
    using run_setup_same[of w i hl i] assms by (simp add: same_nodes_def)
  have d: "surfaces (elems (snd (connectedCallback hl i w)) i) = surfaces (elems w i)"
    using connectedCallback_same[of w i hl i] assms by (simp add: same_nodes_def)
  show ?thesis
    using assms a b c d setup_makes_all[of hl m e] by (simp add: setup_elem_done run_setup_done)
qed

text \<open>
  The theorem at the example document: the template is registered again, the element is
  disconnected and connected again, and \<^verbatim>\<open>setup\<close> is called once more.
\<close>

theorem surfaces_created_once_witness:
  "textareaElement (elems example_world 0) \<noteq> None
   \<and> setup_elem example_highlighter 3 (elems example_world 0) = ((None, elems example_world 0), 3)
   \<and> surfaces (elems (fold (perform example_highlighter)
         [Register (JString ''demo'') example_template_obj, Disconnect 0, Connect 0, CallSetup 0, WindowLoad,
          UserInput 0 ''x'']
         example_world) 0) = (Some 0, Some 2, Some 1)"
proof -
  have h: "textareaElement (elems example_world 0) \<noteq> None"
    by (simp add: example_world_def example_active_def)
  have s: "surfaces (elems example_world 0) = (Some 0, Some 2, Some 1)"
    by (simp add: example_world_def example_active_def surfaces_def)
  show ?thesis
    using surfaces_created_once[OF h, where hl = example_highlighter and n = 3 and m = 0
        and e = example_pending and acts =
        "[Register (JString ''demo'') example_template_obj, Disconnect 0, Connect 0, CallSetup 0, WindowLoad,
          UserInput 0 ''x'']"]
      h s
    by simp
qed

end
